theory Spec2Isabelle
  imports Main "HOL-Library.Word"
begin

unbundle bit_operations_syntax

section \<open>The identity mapper of the NFSv4.1 client (daemon/idmap.c)\<close>

text \<open>
  A C string is modelled by the \<open>string\<close> of its characters before the terminating NUL.
  A \<open>char *\<close> that walks through a buffer is the suffix of the buffer it points to, or an
  offset into it. \<open>UINT\<close>, \<open>uid_t\<close> and \<open>gid_t\<close> are 32-bit words; the \<open>INT\<close> field
  \<open>cache_ttl\<close> is a 32-bit word that is read as a signed number.
\<close>

subsection \<open>Functions of the C library and of the Windows API\<close>

definition isspace :: "char \<Rightarrow> bool" where
  "isspace c = ((of_char c :: nat) = 32 \<or> (9 \<le> (of_char c :: nat) \<and> (of_char c :: nat) \<le> 13))"

definition isdigit :: "char \<Rightarrow> bool" where
  "isdigit c = (48 \<le> (of_char c :: nat) \<and> (of_char c :: nat) \<le> 57)"

definition tolower :: "char \<Rightarrow> char" where
  "tolower c = (if 65 \<le> (of_char c :: nat) \<and> (of_char c :: nat) \<le> 90
                then char_of ((of_char c :: nat) + 32) else c)"

text \<open>\<open>strchr s c\<close>: the offset of the first \<open>c\<close> in \<open>s\<close>, or \<open>None\<close> for \<open>NULL\<close>.\<close>

fun strchr :: "string \<Rightarrow> char \<Rightarrow> nat option" where
  "strchr [] c = None"
| "strchr (x # xs) c = (if x = c then Some 0 else map_option Suc (strchr xs c))"

fun strcmp :: "string \<Rightarrow> string \<Rightarrow> int" where
  "strcmp [] [] = 0"
| "strcmp [] (y # ys) = - 1"
| "strcmp (x # xs) [] = 1"
| "strcmp (x # xs) (y # ys) =
     (if x = y then strcmp xs ys
      else if (of_char x :: nat) < of_char y then - 1 else 1)"

definition stricmp :: "string \<Rightarrow> string \<Rightarrow> int" where
  "stricmp a b = strcmp (map tolower a) (map tolower b)"

text \<open>\<open>while (isspace(*pos)) pos++;\<close>\<close>

fun skip_isspace :: "string \<Rightarrow> string" where
  "skip_isspace [] = []"
| "skip_isspace (c # cs) = (if isspace c then skip_isspace cs else c # cs)"

text \<open>\<open>while (len && isspace(s[len-1])) len--;\<close>\<close>

fun trim_len :: "string \<Rightarrow> nat \<Rightarrow> nat" where
  "trim_len s 0 = 0"
| "trim_len s (Suc n) = (if isspace (s ! n) then trim_len s n else Suc n)"

text \<open>
  \<open>strtoul(str, &endp, 10)\<close> with a 32-bit \<open>unsigned long\<close>: leading white space, an
  optional sign, decimal digits. The result is the value, the offset \<open>endp - str\<close> and
  \<open>errno\<close> afterwards. Without a digit nothing is converted: the value is 0 and \<open>endp\<close> is
  \<open>str\<close>. A value beyond \<open>ULONG_MAX\<close> gives \<open>ULONG_MAX\<close> and sets \<open>errno\<close> to \<open>ERANGE\<close>;
  otherwise \<open>errno\<close> is left as it was, and a minus sign negates the value modulo \<open>2^32\<close>.
\<close>

type_synonym errno = int

definition ERANGE :: errno where
  "ERANGE = 34"

definition ULONG_MAX :: "32 word" where
  "ULONG_MAX = 0xFFFFFFFF"

definition digit_val :: "char \<Rightarrow> nat" where
  "digit_val c = of_char c - 48"

fun strtoul_digits :: "string \<Rightarrow> nat \<Rightarrow> nat \<times> nat" where
  "strtoul_digits [] acc = (acc, 0)"
| "strtoul_digits (c # cs) acc =
     (if isdigit c
      then (case strtoul_digits cs (10 * acc + digit_val c) of (v, n) \<Rightarrow> (v, Suc n))
      else (acc, 0))"

definition strtoul :: "string \<Rightarrow> errno \<Rightarrow> 32 word \<times> nat \<times> errno" where
  "strtoul str en =
     (let ws = length str - length (skip_isspace str);
          s1 = skip_isspace str;
          neg = (case s1 of [] \<Rightarrow> False | c # _ \<Rightarrow> c = CHR ''-'');
          sg = (case s1 of [] \<Rightarrow> 0 | c # _ \<Rightarrow> if c = CHR ''-'' \<or> c = CHR ''+'' then 1 else 0)
      in case strtoul_digits (drop sg s1) 0 of (v, n) \<Rightarrow>
           if n = 0 then (0, 0, en)
           else if 2 ^ 32 \<le> v then (ULONG_MAX, ws + sg + n, ERANGE)
           else ((if neg then - of_nat v else of_nat v), ws + sg + n, en))"

text \<open>
  \<open>StringCchCopyA(dst, cchDest, src)\<close>: whether the call \<open>FAILED\<close>, and the content of
  \<open>dst\<close> afterwards. A source that does not fit with its terminator is truncated and the
  call fails; a destination of size 0 fails and is left alone.
\<close>

definition StringCchCopyA :: "string \<Rightarrow> nat \<Rightarrow> string \<Rightarrow> bool \<times> string" where
  "StringCchCopyA dst cchDest src =
     (if cchDest = 0 then (True, dst)
      else if length src < cchDest then (False, src)
      else (True, take (cchDest - 1) src))"

definition StringCchCopyNA :: "string \<Rightarrow> nat \<Rightarrow> string \<Rightarrow> nat \<Rightarrow> bool \<times> string" where
  "StringCchCopyNA dst cchDest src cchToCopy = StringCchCopyA dst cchDest (take cchToCopy src)"

subsection \<open>Status codes\<close>

text \<open>
  The LDAP result codes the code names, and any other code \<open>ldap_search_stA\<close> reports.
  \<open>LdapMapErrorToWin32\<close> is a function of the Windows API; its results are kept symbolic.
  The last two errors are not status values a function returns: they are the two ways a
  call ends the process, by reading through a \<open>NULL\<close> context or in the invalid-parameter
  handler of the C runtime (\<open>strcpy_s\<close> with a destination that is too small).
\<close>

datatype ldap_code = LDAP_NO_RESULTS_RETURNED | LDAP_NO_SUCH_ATTRIBUTE | LDAP_OTHER nat

datatype error =
    ERROR_FILE_NOT_FOUND
  | ERROR_INVALID_PARAMETER
  | ERROR_BUFFER_OVERFLOW
  | ERROR_NOT_FOUND
  | LdapMapErrorToWin32 ldap_code
  | LAST_ERROR nat
  | ACCESS_VIOLATION
  | CRT_INVALID_PARAMETER

subsection \<open>Configuration\<close>

datatype ldap_class = CLASS_USER | CLASS_GROUP

datatype ldap_attr = ATTR_USER_NAME | ATTR_GROUP_NAME | ATTR_PRINCIPAL | ATTR_UID | ATTR_GID

datatype config_type = TYPE_STR | TYPE_INT

definition FILTER_LEN :: nat where
  "FILTER_LEN = 1024"

definition NAME_LEN :: nat where
  "NAME_LEN = 32"

definition VAL_LEN :: nat where
  "VAL_LEN = 257"

text \<open>
  Build-time parameters: \<open>NFS41_HOSTNAME_LEN\<close> is defined in nfs41_const.h and
  \<open>NFS41_DRIVER_FEATURE_IDMAPPER_CYGWIN\<close> in nfs41_build_features.h; neither header is
  part of the sources at hand, so both are parameters of the model.
\<close>

record build =
  NFS41_HOSTNAME_LEN :: nat
  FEATURE_IDMAPPER_CYGWIN :: bool

record idmap_config =
  hostname :: string
  localdomain_name :: string
  port :: "32 word"
  version :: "32 word"
  timeout :: "32 word"
  classes :: "ldap_class \<Rightarrow> string"
  attributes :: "ldap_attr \<Rightarrow> string"
  base :: string
  cache_ttl :: "32 word"

text \<open>\<open>FIELD_OFFSET(struct idmap_config, field)\<close>: the field an option is stored in.\<close>

datatype config_field =
    FIELD_hostname
  | FIELD_port
  | FIELD_version
  | FIELD_timeout
  | FIELD_base
  | FIELD_classes ldap_class
  | FIELD_attributes ldap_attr
  | FIELD_cache_ttl

record config_option =
  opt_key :: string
  opt_def :: string
  opt_type :: config_type
  opt_offset :: config_field
  opt_max_len :: nat

definition OPT_INT :: "string \<Rightarrow> string \<Rightarrow> config_field \<Rightarrow> config_option" where
  "OPT_INT k d f =
     \<lparr>opt_key = k, opt_def = d, opt_type = TYPE_INT, opt_offset = f, opt_max_len = 0\<rparr>"

definition OPT_STR :: "string \<Rightarrow> string \<Rightarrow> config_field \<Rightarrow> nat \<Rightarrow> config_option" where
  "OPT_STR k d f len =
     \<lparr>opt_key = k, opt_def = d, opt_type = TYPE_STR, opt_offset = f, opt_max_len = len\<rparr>"

definition OPT_CLASS :: "string \<Rightarrow> string \<Rightarrow> ldap_class \<Rightarrow> config_option" where
  "OPT_CLASS k d index = OPT_STR k d (FIELD_classes index) NAME_LEN"

definition OPT_ATTR :: "string \<Rightarrow> string \<Rightarrow> ldap_attr \<Rightarrow> config_option" where
  "OPT_ATTR k d index = OPT_STR k d (FIELD_attributes index) NAME_LEN"

definition g_options :: "build \<Rightarrow> config_option list" where
  "g_options b =
     [ OPT_STR ''ldap_hostname'' ''localhost'' FIELD_hostname (NFS41_HOSTNAME_LEN b + 1),
       OPT_INT ''ldap_port'' ''389'' FIELD_port,
       OPT_INT ''ldap_version'' ''3'' FIELD_version,
       OPT_INT ''ldap_timeout'' ''0'' FIELD_timeout,
       OPT_STR ''ldap_base'' ''cn=localhost'' FIELD_base VAL_LEN,
       OPT_CLASS ''ldap_class_users'' ''user'' CLASS_USER,
       OPT_CLASS ''ldap_class_groups'' ''group'' CLASS_GROUP,
       OPT_ATTR ''ldap_attr_username'' ''cn'' ATTR_USER_NAME,
       OPT_ATTR ''ldap_attr_groupname'' ''cn'' ATTR_GROUP_NAME,
       OPT_ATTR ''ldap_attr_gssAuthName'' ''gssAuthName'' ATTR_PRINCIPAL,
       OPT_ATTR ''ldap_attr_uidNumber'' ''uidNumber'' ATTR_UID,
       OPT_ATTR ''ldap_attr_gidNumber'' ''gidNumber'' ATTR_GID,
       OPT_INT ''cache_ttl'' ''6000'' FIELD_cache_ttl ]"

text \<open>
  Reading and writing \<open>(char*)config + option->offset\<close>. The table pairs every integer
  option with an integer field and every string option with a character array; the
  other pairings overwrite raw bytes in C and leave the configuration alone here.
\<close>

fun read_str_field :: "config_field \<Rightarrow> idmap_config \<Rightarrow> string" where
  "read_str_field FIELD_hostname config = hostname config"
| "read_str_field FIELD_base config = base config"
| "read_str_field (FIELD_classes k) config = classes config k"
| "read_str_field (FIELD_attributes a) config = attributes config a"
| "read_str_field _ config = []"

fun write_str_field :: "config_field \<Rightarrow> string \<Rightarrow> idmap_config \<Rightarrow> idmap_config" where
  "write_str_field FIELD_hostname s config = config\<lparr>hostname := s\<rparr>"
| "write_str_field FIELD_base s config = config\<lparr>base := s\<rparr>"
| "write_str_field (FIELD_classes k) s config = config\<lparr>classes := (classes config)(k := s)\<rparr>"
| "write_str_field (FIELD_attributes a) s config =
     config\<lparr>attributes := (attributes config)(a := s)\<rparr>"
| "write_str_field _ s config = config"

fun write_uint_field :: "config_field \<Rightarrow> 32 word \<Rightarrow> idmap_config \<Rightarrow> idmap_config" where
  "write_uint_field FIELD_port v config = config\<lparr>port := v\<rparr>"
| "write_uint_field FIELD_version v config = config\<lparr>version := v\<rparr>"
| "write_uint_field FIELD_timeout v config = config\<lparr>timeout := v\<rparr>"
| "write_uint_field FIELD_cache_ttl v config = config\<lparr>cache_ttl := v\<rparr>"
| "write_uint_field _ v config = config"

record config_pair =
  key :: string
  value' :: string
  key_len :: nat
  value_len :: nat

text \<open>
  \<open>config_parse_pair\<close>: \<open>pos\<close> is the suffix of the line the pointer stands at. The key and
  the value are the strings the pair points to once both are NUL-terminated at their
  lengths.
\<close>

definition config_parse_pair :: "string \<Rightarrow> error + config_pair" where
  "config_parse_pair line =
     (let line1 = (case strchr line CHR ''#'' of None \<Rightarrow> line | Some i \<Rightarrow> take i line);
          keyp = skip_isspace line1
      in case strchr keyp CHR ''='' of
           None \<Rightarrow> Inl ERROR_INVALID_PARAMETER
         | Some eq \<Rightarrow>
             let klen = trim_len keyp eq
             in if klen \<le> 0 then Inl ERROR_INVALID_PARAMETER
                else
                  let pos = skip_isspace (drop (eq + 1) keyp)
                  in (case pos of
                        [] \<Rightarrow> Inl ERROR_INVALID_PARAMETER
                      | c # valp \<Rightarrow>
                          if c = CHR 0x22
                          then (case strchr valp (CHR 0x22) of
                                  None \<Rightarrow> Inl ERROR_INVALID_PARAMETER
                                | Some q \<Rightarrow>
                                    Inr \<lparr>key = take klen keyp, value' = take q valp,
                                         key_len = klen, value_len = q\<rparr>)
                          else
                            let vlen = trim_len pos (length pos)
                            in Inr \<lparr>key = take klen keyp, value' = take vlen pos,
                                    key_len = klen, value_len = vlen\<rparr>))"

text \<open>
  \<open>parse_uint\<close>: \<open>None\<close> for \<open>FALSE\<close>, the number stored in \<open>*id_out\<close> otherwise. \<open>en\<close> is
  the value of \<open>errno\<close> when the function is entered; nothing in it resets \<open>errno\<close>.
\<close>

definition parse_uint :: "errno \<Rightarrow> string \<Rightarrow> 32 word option" where
  "parse_uint en str =
     (case strtoul str en of (idv, endp, en') \<Rightarrow>
        if endp < length str then None
        else if idv = ULONG_MAX \<and> en' = ERANGE then None
        else Some idv)"

text \<open>
  \<open>config_defaults\<close>: the loop over \<open>g_options\<close>, leaving at the first failure. A call
  of \<open>parse_uint\<close> that changes \<open>errno\<close> fails and ends the loop, so every call in one loop
  sees the \<open>errno\<close> the loop was entered with.
\<close>

fun config_defaults_loop ::
  "errno \<Rightarrow> config_option list \<Rightarrow> idmap_config \<Rightarrow> error + idmap_config" where
  "config_defaults_loop en [] config = Inr config"
| "config_defaults_loop en (opt # rest) config =
     (if opt_type opt = TYPE_INT
      then (case parse_uint en (opt_def opt) of
              None \<Rightarrow> Inl ERROR_INVALID_PARAMETER
            | Some v \<Rightarrow> config_defaults_loop en rest (write_uint_field (opt_offset opt) v config))
      else (case StringCchCopyA (read_str_field (opt_offset opt) config) (opt_max_len opt)
                   (opt_def opt) of
              (True, _) \<Rightarrow> Inl ERROR_BUFFER_OVERFLOW
            | (False, s) \<Rightarrow> config_defaults_loop en rest (write_str_field (opt_offset opt) s config)))"

definition config_defaults :: "build \<Rightarrow> errno \<Rightarrow> idmap_config \<Rightarrow> error + idmap_config" where
  "config_defaults b en config = config_defaults_loop en (g_options b) config"

fun config_find_option_loop :: "config_pair \<Rightarrow> config_option list \<Rightarrow> config_option option" where
  "config_find_option_loop pair [] = None"
| "config_find_option_loop pair (opt # rest) =
     (if stricmp (key pair) (opt_key opt) = 0 then Some opt
      else config_find_option_loop pair rest)"

text \<open>\<open>config_find_option\<close>: \<open>Inl ERROR_NOT_FOUND\<close> when no key of the table matches.\<close>

definition config_find_option :: "build \<Rightarrow> config_pair \<Rightarrow> error + config_option" where
  "config_find_option b pair =
     (case config_find_option_loop pair (g_options b) of
        None \<Rightarrow> Inl ERROR_NOT_FOUND
      | Some opt \<Rightarrow> Inr opt)"

text \<open>
  The test at the head of the loop of \<open>config_load\<close>: a line whose first character after
  white space is \<open>#\<close> or the end of the line is passed over (\<open>continue\<close>).
\<close>

definition config_skip_line :: "string \<Rightarrow> bool" where
  "config_skip_line buffer =
     (case skip_isspace buffer of [] \<Rightarrow> True | c # _ \<Rightarrow> c = CHR ''#'')"

text \<open>
  The loop of \<open>config_load\<close> over the buffers \<open>fgets\<close> delivers, one per line of the file.
\<close>

fun config_load_lines ::
  "build \<Rightarrow> errno \<Rightarrow> string list \<Rightarrow> idmap_config \<Rightarrow> error + idmap_config" where
  "config_load_lines b en [] config = Inr config"
| "config_load_lines b en (buffer # rest) config =
     (if config_skip_line buffer then config_load_lines b en rest config
      else case config_parse_pair buffer of
             Inl status \<Rightarrow> Inl status
           | Inr pair \<Rightarrow>
               (case config_find_option b pair of
                  Inl status \<Rightarrow> Inl ERROR_INVALID_PARAMETER
                | Inr opt \<Rightarrow>
                    if opt_type opt = TYPE_INT
                    then (case parse_uint en (value' pair) of
                            None \<Rightarrow> Inl ERROR_INVALID_PARAMETER
                          | Some v \<Rightarrow>
                              config_load_lines b en rest
                                (write_uint_field (opt_offset opt) v config))
                    else (case StringCchCopyNA (read_str_field (opt_offset opt) config)
                                 (opt_max_len opt) (value' pair) (value_len pair) of
                            (True, _) \<Rightarrow> Inl ERROR_BUFFER_OVERFLOW
                          | (False, s) \<Rightarrow>
                              config_load_lines b en rest
                                (write_str_field (opt_offset opt) s config))))"

text \<open>
  \<open>fopen\<close> is the file system: the lines of the file at a path, or \<open>None\<close> when the file
  cannot be opened. A file that cannot be opened leaves the status at \<open>NO_ERROR\<close>.
\<close>

definition config_load ::
  "build \<Rightarrow> (string \<Rightarrow> string list option) \<Rightarrow> errno \<Rightarrow> idmap_config \<Rightarrow> string
     \<Rightarrow> error + idmap_config" where
  "config_load b fopen en config filename =
     (case fopen filename of
        None \<Rightarrow> Inr config
      | Some lines \<Rightarrow> config_load_lines b en lines config)"

definition CONFIG_FILENAME :: string where
  "CONFIG_FILENAME = ''C:'' @ [CHR 0x5C] @ ''etc'' @ [CHR 0x5C] @ ''ms-nfs41-idmap.conf''"

definition config_init ::
  "build \<Rightarrow> (string \<Rightarrow> string list option) \<Rightarrow> errno \<Rightarrow> idmap_config \<Rightarrow> error + idmap_config" where
  "config_init b fopen en config =
     (case config_defaults b en config of
        Inl status \<Rightarrow> Inl status
      | Inr config1 \<Rightarrow>
          (case config_load b fopen en config1 CONFIG_FILENAME of
             Inl status \<Rightarrow> Inl status
           | Inr config2 \<Rightarrow> Inr config2))"

subsection \<open>The grammar of a configuration line, in the words of the specification\<close>

text \<open>
  Strip anything from a \<open>#\<close> to the end of the line; skip blank lines; otherwise the line
  is \<open>key = value\<close> or \<open>key = "value"\<close>. An unquoted value loses its trailing white space;
  a quoted value is everything up to the closing quote. A line without \<open>=\<close>, without a
  key, without a value or with an unterminated quote is rejected.
\<close>

datatype line_result = Line_Skipped | Line_Rejected | Line_Pair string string





text \<open>What the loop of \<open>config_load\<close> makes of one line, up to the parsed pair.\<close>

definition config_line :: "string \<Rightarrow> line_result" where
  "config_line buffer =
     (if config_skip_line buffer then Line_Skipped
      else case config_parse_pair buffer of
             Inl status \<Rightarrow> Line_Rejected
           | Inr pair \<Rightarrow> Line_Pair (key pair) (value' pair))"

subsection \<open>Formatted output\<close>

datatype printf_arg = ARG_STR string | ARG_UINT "32 word"

text \<open>\<open>%u\<close>: an unsigned number in decimal.\<close>

fun utoa :: "nat \<Rightarrow> string" where
  "utoa n = (if n < 10 then [char_of (48 + n)] else utoa (n div 10) @ [char_of (48 + n mod 10)])"

declare utoa.simps [simp del]

text \<open>
  The output of the \<open>printf\<close> family for the directives the code uses: \<open>%s\<close>, \<open>%u\<close> and
  \<open>%lu\<close> (\<open>unsigned long\<close> has 32 bits). A directive whose argument has the wrong type
  is undefined in C and prints nothing here.
\<close>

fun format :: "string \<Rightarrow> printf_arg list \<Rightarrow> string" where
  "format [] args = []"
| "format [c] args = [c]"
| "format (c # d # fmt) args =
     (if c = CHR ''%'' \<and> d = CHR ''s''
      then (case args of ARG_STR s # args' \<Rightarrow> s @ format fmt args' | _ \<Rightarrow> format fmt (tl args))
      else if c = CHR ''%'' \<and> d = CHR ''u''
      then (case args of ARG_UINT u # args' \<Rightarrow> utoa (unat u) @ format fmt args'
            | _ \<Rightarrow> format fmt (tl args))
      else if c = CHR ''%'' \<and> d = CHR ''l'' then format (c # fmt) args
      else c # format (d # fmt) args)"

text \<open>
  \<open>StringCchPrintfA(dst, cchDest, fmt, ...)\<close>: whether the call \<open>FAILED\<close> and the content
  of \<open>dst\<close>; output that does not fit with its terminator is truncated and the call fails.
\<close>

definition StringCchPrintfA :: "nat \<Rightarrow> string \<Rightarrow> printf_arg list \<Rightarrow> bool \<times> string" where
  "StringCchPrintfA cchDest fmt args =
     (if cchDest = 0 then (True, [])
      else if length (format fmt args) < cchDest then (False, format fmt args)
      else (True, take (cchDest - 1) (format fmt args)))"

text \<open>\<open>snprintf(dst, size, fmt, ...)\<close>: the content of \<open>dst\<close>, truncated to \<open>size - 1\<close>.\<close>

definition snprintf :: "nat \<Rightarrow> string \<Rightarrow> printf_arg list \<Rightarrow> string" where
  "snprintf n fmt args = take (n - 1) (format fmt args)"

text \<open>
  \<open>strcpy_s(dst, size, src)\<close>: a source that does not fit with its terminator calls the
  invalid-parameter handler of the C runtime, which ends the process.
\<close>

definition strcpy_s :: "nat \<Rightarrow> string \<Rightarrow> error + string" where
  "strcpy_s n src = (if length src < n then Inr src else Inl CRT_INVALID_PARAMETER)"

subsection \<open>Look-ups and the generic cache\<close>

text \<open>
  \<open>const void *value\<close> of a look-up is a string or a number cast to a pointer. The field
  \<open>type\<close> of \<open>struct idmap_lookup\<close> says which; here the value carries its own tag and
  \<open>lookup_type\<close> reads it. Reading a number as a string, or a string as a number, is what
  no caller does; the casts give the empty string and 0 there.
\<close>

datatype void_ptr = PTR_STR string | PTR_UINT "32 word"

fun PTR2STR :: "void_ptr \<Rightarrow> string" where
  "PTR2STR (PTR_STR s) = s"
| "PTR2STR (PTR_UINT u) = []"

fun PTR2UINT :: "void_ptr \<Rightarrow> 32 word" where
  "PTR2UINT (PTR_UINT u) = u"
| "PTR2UINT (PTR_STR s) = 0"

definition PTR2UID_T :: "void_ptr \<Rightarrow> 32 word" where
  "PTR2UID_T p = PTR2UINT p"

definition PTR2GID_T :: "void_ptr \<Rightarrow> 32 word" where
  "PTR2GID_T p = PTR2UINT p"

definition UID_T2PTR :: "32 word \<Rightarrow> void_ptr" where
  "UID_T2PTR u = PTR_UINT u"

definition GID_T2PTR :: "32 word \<Rightarrow> void_ptr" where
  "GID_T2PTR g = PTR_UINT g"

record 'e idmap_lookup =
  attr :: ldap_attr
  klass :: ldap_class
  compare :: "'e \<Rightarrow> void_ptr \<Rightarrow> int"
  lookup_value :: void_ptr

definition lookup_type :: "'e idmap_lookup \<Rightarrow> config_type" where
  "lookup_type lookup = (case lookup_value lookup of PTR_STR s \<Rightarrow> TYPE_STR | PTR_UINT u \<Rightarrow> TYPE_INT)"

text \<open>
  Modelled from the spec: list.h is not part of the sources at hand. \<open>list_search\<close> scans
  the list from its head with the comparator and returns the first entry the comparator
  answers 0 for (here: its position), or \<open>NULL\<close>.
\<close>

fun list_search :: "'e list \<Rightarrow> void_ptr \<Rightarrow> ('e \<Rightarrow> void_ptr \<Rightarrow> int) \<Rightarrow> nat option" where
  "list_search [] v cmp = None"
| "list_search (e # es) v cmp =
     (if cmp e v = 0 then Some 0 else map_option Suc (list_search es v cmp))"

text \<open>
  The operations of a cache. \<open>entry_alloc\<close> takes whether \<open>calloc\<close> succeeds and returns the
  zeroed entry or \<open>NULL\<close>. \<open>entry_copy\<close> overwrites every field of its destination, so it
  is given by the source alone. A cache is the list behind its \<open>head\<close>; its \<open>ops\<close> are set
  once by \<open>cache_init\<close> (\<open>user_cache_ops\<close> for the users, \<open>group_cache_ops\<close> for the
  groups) and are an argument here.
\<close>

record 'e cache_ops =
  entry_alloc :: "bool \<Rightarrow> 'e option"
  entry_copy :: "'e \<Rightarrow> 'e"

text \<open>
  \<open>cache_insert\<close>: the status (\<open>None\<close> is \<open>NO_ERROR\<close>) and the list afterwards.
  \<open>last_error\<close> is what \<open>GetLastError()\<close> answers after a failed allocation.
\<close>

definition cache_insert ::
  "'e cache_ops \<Rightarrow> bool \<Rightarrow> error option \<Rightarrow> 'e list \<Rightarrow> 'e idmap_lookup \<Rightarrow> 'e
     \<Rightarrow> error option \<times> 'e list" where
  "cache_insert ops calloc_ok last_error cache lookup src =
     (case list_search cache (lookup_value lookup) (compare lookup) of
        Some i \<Rightarrow> (None, cache[i := entry_copy ops src])
      | None \<Rightarrow>
          (case entry_alloc ops calloc_ok of
             None \<Rightarrow> (last_error, cache)
           | Some entry \<Rightarrow> (None, entry_copy ops src # cache)))"

definition cache_lookup :: "'e cache_ops \<Rightarrow> 'e list \<Rightarrow> 'e idmap_lookup \<Rightarrow> error + 'e" where
  "cache_lookup ops cache lookup =
     (case list_search cache (lookup_value lookup) (compare lookup) of
        Some i \<Rightarrow> Inr (entry_copy ops (cache ! i))
      | None \<Rightarrow> Inl ERROR_NOT_FOUND)"

text \<open>
  Modelled from the spec: util.h is not part of the sources at hand.
  \<open>util_reltimestamp\<close> counts seconds, \<open>UTIL_GETRELTIME()\<close> reads the clock and
  \<open>UTIL_DIFFRELTIME(now, then)\<close> is the age \<open>now - then\<close>.
\<close>

type_synonym util_reltimestamp = int

definition UTIL_DIFFRELTIME :: "util_reltimestamp \<Rightarrow> util_reltimestamp \<Rightarrow> int" where
  "UTIL_DIFFRELTIME t1 t0 = t1 - t0"

record idmap_user =
  username :: string
  principal :: string
  uid :: "32 word"
  gid :: "32 word"
  last_updated :: util_reltimestamp

definition user_cache_alloc :: "bool \<Rightarrow> idmap_user option" where
  "user_cache_alloc calloc_ok =
     (if calloc_ok
      then Some \<lparr>username = [], principal = [], uid = 0, gid = 0, last_updated = 0\<rparr>
      else None)"

definition user_cache_copy :: "idmap_user \<Rightarrow> idmap_user" where
  "user_cache_copy src =
     \<lparr>username = snd (StringCchCopyA [] VAL_LEN (username src)),
      principal = snd (StringCchCopyA [] VAL_LEN (principal src)),
      uid = uid src, gid = gid src, last_updated = last_updated src\<rparr>"

definition user_cache_ops :: "idmap_user cache_ops" where
  "user_cache_ops = \<lparr>entry_alloc = user_cache_alloc, entry_copy = user_cache_copy\<rparr>"

record idmap_group =
  name :: string
  gid' :: "32 word"
  last_updated' :: util_reltimestamp

definition group_cache_alloc :: "bool \<Rightarrow> idmap_group option" where
  "group_cache_alloc calloc_ok =
     (if calloc_ok then Some \<lparr>name = [], gid' = 0, last_updated' = 0\<rparr> else None)"

definition group_cache_copy :: "idmap_group \<Rightarrow> idmap_group" where
  "group_cache_copy src =
     \<lparr>name = snd (StringCchCopyA [] VAL_LEN (name src)),
      gid' = gid' src, last_updated' = last_updated' src\<rparr>"

definition group_cache_ops :: "idmap_group cache_ops" where
  "group_cache_ops = \<lparr>entry_alloc = group_cache_alloc, entry_copy = group_cache_copy\<rparr>"

record idmap_context =
  config :: idmap_config
  users :: "idmap_user list"
  groups :: "idmap_group list"

subsection \<open>The world outside the mapper\<close>

text \<open>
  An entry of the directory gives the values of each attribute (none when the entry does
  not have the attribute). What one call of the mapper sees of the world: the clock when
  the age of a cached entry is tested and when a fetched entry is stamped, \<open>errno\<close> on
  entry, whether \<open>calloc\<close> succeeds and what \<open>GetLastError()\<close> answers when it does not,
  the directory behind \<open>ldap_search_stA\<close> (by base and filter: a result code other than
  \<open>LDAP_SUCCESS\<close>, or the entries found) and the local account database behind
  \<open>cygwin_getent_passwd\<close> and \<open>cygwin_getent_group\<close> (idmap_cygwin.c, not part of the
  sources at hand: the account's name and numbers, or \<open>None\<close> when the call fails).
\<close>

type_synonym ldap_entry = "string \<Rightarrow> string list"

record world =
  now_check :: util_reltimestamp
  now_update :: util_reltimestamp
  errno_entry :: errno
  calloc_ok :: bool
  last_error :: "error option"
  ldap_search_stA :: "string \<Rightarrow> string \<Rightarrow> ldap_code + ldap_entry list"
  cygwin_getent_passwd :: "string \<Rightarrow> (string \<times> 32 word \<times> 32 word) option"
  cygwin_getent_group :: "string \<Rightarrow> (string \<times> 32 word) option"

definition ldap_first_entry :: "ldap_entry list \<Rightarrow> ldap_entry option" where
  "ldap_first_entry res = (case res of [] \<Rightarrow> None | entry # _ \<Rightarrow> Some entry)"

text \<open>\<open>ldap_get_valuesA\<close>: \<open>NULL\<close> when the entry has no value for the attribute.\<close>

definition ldap_get_valuesA :: "ldap_entry \<Rightarrow> string \<Rightarrow> string list option" where
  "ldap_get_valuesA entry a = (case entry a of [] \<Rightarrow> None | v # vs \<Rightarrow> Some (v # vs))"

text \<open>\<open>*values[i]\<close>: the first value; reading through \<open>NULL\<close> ends the process.\<close>

definition first_value :: "string list option \<Rightarrow> error + string" where
  "first_value vs =
     (case vs of None \<Rightarrow> Inl ACCESS_VIOLATION | Some [] \<Rightarrow> Inl ACCESS_VIOLATION
      | Some (v # _) \<Rightarrow> Inr v)"

subsection \<open>The directory backend\<close>

fun attr_index :: "ldap_attr \<Rightarrow> nat" where
  "attr_index ATTR_USER_NAME = 0"
| "attr_index ATTR_GROUP_NAME = 1"
| "attr_index ATTR_PRINCIPAL = 2"
| "attr_index ATTR_UID = 3"
| "attr_index ATTR_GID = 4"

definition NUM_ATTRIBUTES :: nat where
  "NUM_ATTRIBUTES = 5"

text \<open>The attributes in the order of \<open>enum ldap_attr\<close>: the indices \<open>0 .. NUM_ATTRIBUTES - 1\<close>.\<close>

definition ldap_attrs :: "ldap_attr list" where
  "ldap_attrs = [ATTR_USER_NAME, ATTR_GROUP_NAME, ATTR_PRINCIPAL, ATTR_UID, ATTR_GID]"

definition ATTR_FLAG :: "ldap_attr \<Rightarrow> 32 word" where
  "ATTR_FLAG a = push_bit (attr_index a) 1"

definition ATTR_ISSET :: "32 word \<Rightarrow> ldap_attr \<Rightarrow> bool" where
  "ATTR_ISSET m a = ((m AND ATTR_FLAG a) \<noteq> 0)"

definition idmap_filter :: "idmap_config \<Rightarrow> 'e idmap_lookup \<Rightarrow> nat \<Rightarrow> error + string" where
  "idmap_filter cfg lookup filter_len =
     (case lookup_type lookup of
        TYPE_INT \<Rightarrow>
          (let i = PTR2UINT (lookup_value lookup)
           in case StringCchPrintfA filter_len ''(&(objectClass=%s)(%s=%u))''
                     [ARG_STR (classes cfg (klass lookup)),
                      ARG_STR (attributes cfg (attr lookup)), ARG_UINT i] of
                (True, _) \<Rightarrow> Inl ERROR_BUFFER_OVERFLOW
              | (False, flt) \<Rightarrow> Inr flt)
      | TYPE_STR \<Rightarrow>
          (case StringCchPrintfA filter_len ''(&(objectClass=%s)(%s=%s))''
                  [ARG_STR (classes cfg (klass lookup)),
                   ARG_STR (attributes cfg (attr lookup)),
                   ARG_STR (PTR2STR (lookup_value lookup))] of
             (True, _) \<Rightarrow> Inl ERROR_BUFFER_OVERFLOW
           | (False, flt) \<Rightarrow> Inr flt))"

text \<open>
  The loop of \<open>idmap_query_attrs\<close> that fetches the attributes of the mask
  \<open>attributes'\<close>; it leaves at the first one that is missing and not in \<open>optional\<close>.
\<close>

fun fetch_attributes ::
  "idmap_config \<Rightarrow> ldap_entry \<Rightarrow> 32 word \<Rightarrow> 32 word \<Rightarrow> ldap_attr list
     \<Rightarrow> (ldap_attr \<Rightarrow> string list option) \<Rightarrow> error + (ldap_attr \<Rightarrow> string list option)" where
  "fetch_attributes cfg entry attributes' optional [] values = Inr values"
| "fetch_attributes cfg entry attributes' optional (i # rest) values =
     (if ATTR_ISSET attributes' i
      then (let v = ldap_get_valuesA entry (attributes cfg i)
            in if v = None \<and> \<not> ATTR_ISSET optional i
               then Inl (LdapMapErrorToWin32 LDAP_NO_SUCH_ATTRIBUTE)
               else fetch_attributes cfg entry attributes' optional rest (values(i := v)))
      else fetch_attributes cfg entry attributes' optional rest values)"

text \<open>
  \<open>idmap_query_attrs\<close> hands back the number of calls of \<open>ldap_search_stA\<close> it made
  together with its status and the values fetched: a filter that does not fit leaves
  through \<open>out\<close> before the search is sent.
\<close>

definition idmap_query_attrs ::
  "world \<Rightarrow> idmap_context \<Rightarrow> 'e idmap_lookup \<Rightarrow> 32 word \<Rightarrow> 32 word
     \<Rightarrow> (ldap_attr \<Rightarrow> string list option) \<Rightarrow> nat
     \<Rightarrow> nat \<times> (error + (ldap_attr \<Rightarrow> string list option))" where
  "idmap_query_attrs w ctx lookup attributes' optional values len =
     (case idmap_filter (config ctx) lookup FILTER_LEN of
        Inl status \<Rightarrow> (0, Inl status)
      | Inr flt \<Rightarrow>
          (1,
           case ldap_search_stA w (base (config ctx)) flt of
             Inl status \<Rightarrow> Inl (LdapMapErrorToWin32 status)
           | Inr res \<Rightarrow>
               (case ldap_first_entry res of
                  None \<Rightarrow> Inl (LdapMapErrorToWin32 LDAP_NO_RESULTS_RETURNED)
                | Some entry \<Rightarrow>
                    fetch_attributes (config ctx) entry attributes' optional
                      (take len ldap_attrs) values)))"

subsection \<open>Looking up a user\<close>

text \<open>
  What a look-up hands back: the status with the entry written on success, the number
  of queries it sent to its backend (the calls of \<open>ldap_search_stA\<close>, or of
  \<open>cygwin_getent_passwd\<close> and \<open>cygwin_getent_group\<close>, that it reached), and the
  context afterwards.
\<close>

record 'a outcome =
  result :: "error + 'a"
  queries :: nat
  context_out :: "idmap_context option"

text \<open>The arm of \<open>idmap_lookup_user\<close> without \<open>NFS41_DRIVER_FEATURE_IDMAPPER_CYGWIN\<close>.\<close>

definition idmap_lookup_user_ldap ::
  "world \<Rightarrow> idmap_context \<Rightarrow> idmap_user idmap_lookup \<Rightarrow> nat \<times> (error + idmap_user)" where
  "idmap_lookup_user_ldap w ctx lookup =
     (let attributes' = ATTR_FLAG ATTR_USER_NAME OR ATTR_FLAG ATTR_PRINCIPAL
                        OR ATTR_FLAG ATTR_UID OR ATTR_FLAG ATTR_GID;
          optional = ATTR_FLAG ATTR_PRINCIPAL
      in case idmap_query_attrs w ctx lookup attributes' optional (\<lambda>i. None) NUM_ATTRIBUTES of
        (n, query) \<Rightarrow>
         (n,
          case query of
            Inl status \<Rightarrow> Inl status
          | Inr values \<Rightarrow>
              (case first_value (values ATTR_USER_NAME) of
                 Inl fault \<Rightarrow> Inl fault
               | Inr v_name \<Rightarrow>
                   (case StringCchCopyA [] VAL_LEN v_name of
                      (True, _) \<Rightarrow> Inl ERROR_BUFFER_OVERFLOW
                    | (False, username1) \<Rightarrow>
                        (case (case values ATTR_PRINCIPAL of
                                 None \<Rightarrow> Inr []
                               | Some vs \<Rightarrow> first_value (Some vs)) of
                           Inl fault \<Rightarrow> Inl fault
                         | Inr v_principal \<Rightarrow>
                             (case StringCchCopyA [] VAL_LEN v_principal of
                                (True, _) \<Rightarrow> Inl ERROR_BUFFER_OVERFLOW
                              | (False, principal1) \<Rightarrow>
                                  (case first_value (values ATTR_UID) of
                                     Inl fault \<Rightarrow> Inl fault
                                   | Inr v_uid \<Rightarrow>
                                       (case parse_uint (errno_entry w) v_uid of
                                          None \<Rightarrow> Inl ERROR_INVALID_PARAMETER
                                        | Some uid1 \<Rightarrow>
                                            (case first_value (values ATTR_GID) of
                                               Inl fault \<Rightarrow> Inl fault
                                             | Inr v_gid \<Rightarrow>
                                                 (case parse_uint (errno_entry w) v_gid of
                                                    None \<Rightarrow> Inl ERROR_INVALID_PARAMETER
                                                  | Some gid1 \<Rightarrow>
                                                      Inr \<lparr>username = username1,
                                                           principal = principal1,
                                                           uid = uid1, gid = gid1,
                                                           last_updated = now_update w\<rparr>))))))))))"

text \<open>The arm of \<open>idmap_lookup_user\<close> with \<open>NFS41_DRIVER_FEATURE_IDMAPPER_CYGWIN\<close>.\<close>

definition idmap_lookup_user_cygwin ::
  "world \<Rightarrow> idmap_context \<Rightarrow> idmap_user idmap_lookup \<Rightarrow> nat \<times> (error + idmap_user)" where
  "idmap_lookup_user_cygwin w ctx lookup =
     (if attr lookup = ATTR_USER_NAME
      then (1,
            case cygwin_getent_passwd w (PTR2STR (lookup_value lookup)) of
              None \<Rightarrow> Inl ERROR_NOT_FOUND
            | Some (res_loginname, cy_uid, cy_gid) \<Rightarrow>
                (let principal_name =
                       snprintf VAL_LEN ''%s@%s''
                         [ARG_STR (PTR2STR (lookup_value lookup)),
                          ARG_STR (localdomain_name (config ctx))]
                 in Inr \<lparr>username = snd (StringCchCopyA [] VAL_LEN (PTR2STR (lookup_value lookup))),
                         principal = snd (StringCchCopyA [] VAL_LEN principal_name),
                         uid = cy_uid, gid = cy_gid, last_updated = now_update w\<rparr>))
      else if attr lookup = ATTR_PRINCIPAL
      then (case strcpy_s VAL_LEN (PTR2STR (lookup_value lookup)) of
              Inl fault \<Rightarrow> (0, Inl fault)
            | Inr search_name0 \<Rightarrow>
                (let search_name =
                       (case strchr search_name0 CHR ''@'' of
                          None \<Rightarrow> search_name0
                        | Some s \<Rightarrow> take s search_name0)
                 in (1,
                     case cygwin_getent_passwd w search_name of
                       None \<Rightarrow> Inl ERROR_NOT_FOUND
                     | Some (res_loginname, cy_uid, cy_gid) \<Rightarrow>
                         (let principal_name =
                                snprintf VAL_LEN ''%s@%s''
                                  [ARG_STR (PTR2STR (lookup_value lookup)),
                                   ARG_STR (localdomain_name (config ctx))]
                          in if strcmp principal_name (PTR2STR (lookup_value lookup)) = 0
                             then Inr \<lparr>username = snd (StringCchCopyA [] VAL_LEN search_name),
                                       principal = snd (StringCchCopyA [] VAL_LEN principal_name),
                                       uid = cy_uid, gid = cy_gid, last_updated = now_update w\<rparr>
                             else Inl ERROR_NOT_FOUND))))
      else if attr lookup = ATTR_UID
      then (1,
            let search_uid = PTR2UID_T (lookup_value lookup);
                search_name = snprintf VAL_LEN ''%lu'' [ARG_UINT search_uid]
            in case cygwin_getent_passwd w search_name of
                 None \<Rightarrow> Inl ERROR_NOT_FOUND
               | Some (res_username, cy_uid, cy_gid) \<Rightarrow>
                   (let principal_name =
                          snprintf VAL_LEN ''%s@%s''
                            [ARG_STR res_username, ARG_STR (localdomain_name (config ctx))]
                    in Inr \<lparr>username = snd (StringCchCopyA [] VAL_LEN res_username),
                            principal = snd (StringCchCopyA [] VAL_LEN principal_name),
                            uid = cy_uid, gid = cy_gid, last_updated = now_update w\<rparr>))
      else (0, Inl ERROR_NOT_FOUND))"

text \<open>
  The section of \<open>idmap_lookup_user\<close> between the test of the cache and the call of
  \<open>cache_insert\<close>, as the build selects it: the queries sent and the status with the
  entry fetched.
\<close>

definition idmap_lookup_user_backend ::
  "build \<Rightarrow> world \<Rightarrow> idmap_context \<Rightarrow> idmap_user idmap_lookup
     \<Rightarrow> nat \<times> (error + idmap_user)" where
  "idmap_lookup_user_backend b w ctx lookup =
     (if FEATURE_IDMAPPER_CYGWIN b then idmap_lookup_user_cygwin w ctx lookup
      else idmap_lookup_user_ldap w ctx lookup)"

definition idmap_lookup_user ::
  "build \<Rightarrow> world \<Rightarrow> idmap_context option \<Rightarrow> idmap_user idmap_lookup \<Rightarrow> idmap_user outcome" where
  "idmap_lookup_user b w context lookup =
     (case context of
        None \<Rightarrow> \<lparr>result = Inl ACCESS_VIOLATION, queries = 0, context_out = None\<rparr>
      | Some ctx \<Rightarrow>
          (let cached = cache_lookup user_cache_ops (users ctx) lookup
           in if (case cached of
                    Inl status \<Rightarrow> False
                  | Inr user \<Rightarrow>
                      UTIL_DIFFRELTIME (now_check w) (last_updated user)
                        < sint (cache_ttl (config ctx)))
              then \<lparr>result = cached, queries = 0, context_out = Some ctx\<rparr>
              else
                (case idmap_lookup_user_backend b w ctx lookup of
                   (n, Inl status) \<Rightarrow> \<lparr>result = Inl status, queries = n, context_out = Some ctx\<rparr>
                 | (n, Inr user) \<Rightarrow>
                     if cache_ttl (config ctx) \<noteq> 0
                     then \<lparr>result = Inr user, queries = n,
                           context_out =
                             Some (ctx\<lparr>users :=
                               snd (cache_insert user_cache_ops (calloc_ok w) (last_error w)
                                      (users ctx) lookup user)\<rparr>)\<rparr>
                     else \<lparr>result = Inr user, queries = n, context_out = Some ctx\<rparr>)))"

subsection \<open>Looking up a group\<close>

definition idmap_lookup_group_ldap ::
  "world \<Rightarrow> idmap_context \<Rightarrow> idmap_group idmap_lookup \<Rightarrow> nat \<times> (error + idmap_group)" where
  "idmap_lookup_group_ldap w ctx lookup =
     (let attributes' = ATTR_FLAG ATTR_GROUP_NAME OR ATTR_FLAG ATTR_GID
      in case idmap_query_attrs w ctx lookup attributes' 0 (\<lambda>i. None) NUM_ATTRIBUTES of
        (n, query) \<Rightarrow>
         (n,
          case query of
            Inl status \<Rightarrow> Inl status
          | Inr values \<Rightarrow>
              (case first_value (values ATTR_GROUP_NAME) of
                 Inl fault \<Rightarrow> Inl fault
               | Inr v_name \<Rightarrow>
                   (case StringCchCopyA [] VAL_LEN v_name of
                      (True, _) \<Rightarrow> Inl ERROR_BUFFER_OVERFLOW
                    | (False, name1) \<Rightarrow>
                        (case first_value (values ATTR_GID) of
                           Inl fault \<Rightarrow> Inl fault
                         | Inr v_gid \<Rightarrow>
                             (case parse_uint (errno_entry w) v_gid of
                                None \<Rightarrow> Inl ERROR_INVALID_PARAMETER
                              | Some gid1 \<Rightarrow>
                                  Inr \<lparr>name = name1, gid' = gid1,
                                       last_updated' = now_update w\<rparr>))))))"

definition idmap_lookup_group_cygwin ::
  "world \<Rightarrow> idmap_context \<Rightarrow> idmap_group idmap_lookup \<Rightarrow> nat \<times> (error + idmap_group)" where
  "idmap_lookup_group_cygwin w ctx lookup =
     (if attr lookup = ATTR_GROUP_NAME
      then (1,
            case cygwin_getent_group w (PTR2STR (lookup_value lookup)) of
              None \<Rightarrow> Inl ERROR_NOT_FOUND
            | Some (res_group_name, cy_gid) \<Rightarrow>
                Inr \<lparr>name = snd (StringCchCopyA [] VAL_LEN (PTR2STR (lookup_value lookup))),
                     gid' = cy_gid, last_updated' = now_update w\<rparr>)
      else if attr lookup = ATTR_GID
      then (1,
            let search_gid = PTR2GID_T (lookup_value lookup);
                search_name = snprintf VAL_LEN ''%lu'' [ARG_UINT search_gid]
            in case cygwin_getent_group w search_name of
                 None \<Rightarrow> Inl ERROR_NOT_FOUND
               | Some (res_groupname, cy_gid) \<Rightarrow>
                   Inr \<lparr>name = snd (StringCchCopyA [] VAL_LEN res_groupname),
                        gid' = cy_gid, last_updated' = now_update w\<rparr>)
      else (0, Inl ERROR_NOT_FOUND))"

definition idmap_lookup_group_backend ::
  "build \<Rightarrow> world \<Rightarrow> idmap_context \<Rightarrow> idmap_group idmap_lookup
     \<Rightarrow> nat \<times> (error + idmap_group)" where
  "idmap_lookup_group_backend b w ctx lookup =
     (if FEATURE_IDMAPPER_CYGWIN b then idmap_lookup_group_cygwin w ctx lookup
      else idmap_lookup_group_ldap w ctx lookup)"

definition idmap_lookup_group ::
  "build \<Rightarrow> world \<Rightarrow> idmap_context option \<Rightarrow> idmap_group idmap_lookup \<Rightarrow> idmap_group outcome" where
  "idmap_lookup_group b w context lookup =
     (case context of
        None \<Rightarrow> \<lparr>result = Inl ACCESS_VIOLATION, queries = 0, context_out = None\<rparr>
      | Some ctx \<Rightarrow>
          (let cached = cache_lookup group_cache_ops (groups ctx) lookup
           in if (case cached of
                    Inl status \<Rightarrow> False
                  | Inr grp \<Rightarrow>
                      UTIL_DIFFRELTIME (now_check w) (last_updated' grp)
                        < sint (cache_ttl (config ctx)))
              then \<lparr>result = cached, queries = 0, context_out = Some ctx\<rparr>
              else
                (case idmap_lookup_group_backend b w ctx lookup of
                   (n, Inl status) \<Rightarrow> \<lparr>result = Inl status, queries = n, context_out = Some ctx\<rparr>
                 | (n, Inr grp) \<Rightarrow>
                     if cache_ttl (config ctx) \<noteq> 0
                     then \<lparr>result = Inr grp, queries = n,
                           context_out =
                             Some (ctx\<lparr>groups :=
                               snd (cache_insert group_cache_ops (calloc_ok w) (last_error w)
                                      (groups ctx) lookup grp)\<rparr>)\<rparr>
                     else \<lparr>result = Inr grp, queries = n, context_out = Some ctx\<rparr>)))"

subsection \<open>The public interface\<close>

definition username_cmp :: "idmap_user \<Rightarrow> void_ptr \<Rightarrow> int" where
  "username_cmp entry v = strcmp (username entry) (PTR2STR v)"

definition uid_cmp :: "idmap_user \<Rightarrow> void_ptr \<Rightarrow> int" where
  "uid_cmp entry v = sint (PTR2UID_T v - uid entry)"

definition principal_cmp :: "idmap_user \<Rightarrow> void_ptr \<Rightarrow> int" where
  "principal_cmp entry v = strcmp (principal entry) (PTR2STR v)"

definition group_cmp :: "idmap_group \<Rightarrow> void_ptr \<Rightarrow> int" where
  "group_cmp entry v = strcmp (name entry) (PTR2STR v)"

definition gid_cmp :: "idmap_group \<Rightarrow> void_ptr \<Rightarrow> int" where
  "gid_cmp entry v = sint (PTR2GID_T v - gid' entry)"

text \<open>
  The \<open>struct idmap_lookup\<close> each operation builds for its key. \<open>name_to_uid\<close> and
  \<open>name_to_ids\<close> build the same one.
\<close>

definition username_lookup :: "string \<Rightarrow> idmap_user idmap_lookup" where
  "username_lookup uname =
     \<lparr>attr = ATTR_USER_NAME, klass = CLASS_USER, compare = username_cmp,
      lookup_value = PTR_STR uname\<rparr>"

definition uid_lookup :: "32 word \<Rightarrow> idmap_user idmap_lookup" where
  "uid_lookup u =
     \<lparr>attr = ATTR_UID, klass = CLASS_USER, compare = uid_cmp, lookup_value = UID_T2PTR u\<rparr>"

definition principal_lookup :: "string \<Rightarrow> idmap_user idmap_lookup" where
  "principal_lookup princ =
     \<lparr>attr = ATTR_PRINCIPAL, klass = CLASS_USER, compare = principal_cmp,
      lookup_value = PTR_STR princ\<rparr>"

definition group_lookup :: "string \<Rightarrow> idmap_group idmap_lookup" where
  "group_lookup gname =
     \<lparr>attr = ATTR_GROUP_NAME, klass = CLASS_GROUP, compare = group_cmp,
      lookup_value = PTR_STR gname\<rparr>"

definition gid_lookup :: "32 word \<Rightarrow> idmap_group idmap_lookup" where
  "gid_lookup g =
     \<lparr>attr = ATTR_GID, klass = CLASS_GROUP, compare = gid_cmp, lookup_value = GID_T2PTR g\<rparr>"

text \<open>
  Each operation returns its status; on success it has written its output locations,
  which are the value of \<open>Inr\<close>.
\<close>

definition nfs41_idmap_name_to_uid ::
  "build \<Rightarrow> world \<Rightarrow> idmap_context option \<Rightarrow> string \<Rightarrow> (32 word) outcome" where
  "nfs41_idmap_name_to_uid b w context uname =
     (let lookup = username_lookup uname;
          r = idmap_lookup_user b w context lookup
      in case result r of
           Inl status \<Rightarrow> \<lparr>result = Inl status, queries = queries r, context_out = context_out r\<rparr>
         | Inr user \<Rightarrow>
             \<lparr>result = Inr (uid user), queries = queries r, context_out = context_out r\<rparr>)"

definition nfs41_idmap_name_to_ids ::
  "build \<Rightarrow> world \<Rightarrow> idmap_context option \<Rightarrow> string \<Rightarrow> (32 word \<times> 32 word) outcome" where
  "nfs41_idmap_name_to_ids b w context uname =
     (if context = None
      then \<lparr>result = Inl ERROR_FILE_NOT_FOUND, queries = 0, context_out = context\<rparr>
      else
        let lookup = username_lookup uname;
            r = idmap_lookup_user b w context lookup
        in case result r of
             Inl status \<Rightarrow> \<lparr>result = Inl status, queries = queries r, context_out = context_out r\<rparr>
           | Inr user \<Rightarrow>
               \<lparr>result = Inr (uid user, gid user), queries = queries r,
                context_out = context_out r\<rparr>)"

definition nfs41_idmap_uid_to_name ::
  "build \<Rightarrow> world \<Rightarrow> idmap_context option \<Rightarrow> 32 word \<Rightarrow> nat \<Rightarrow> string outcome" where
  "nfs41_idmap_uid_to_name b w context u len =
     (let lookup = uid_lookup u;
          r = idmap_lookup_user b w context lookup
      in case result r of
           Inl status \<Rightarrow> \<lparr>result = Inl status, queries = queries r, context_out = context_out r\<rparr>
         | Inr user \<Rightarrow>
             (case StringCchCopyA [] len (username user) of
                (True, _) \<Rightarrow>
                  \<lparr>result = Inl ERROR_BUFFER_OVERFLOW, queries = queries r,
                   context_out = context_out r\<rparr>
              | (False, name_out) \<Rightarrow>
                  \<lparr>result = Inr name_out, queries = queries r, context_out = context_out r\<rparr>))"

definition nfs41_idmap_principal_to_ids ::
  "build \<Rightarrow> world \<Rightarrow> idmap_context option \<Rightarrow> string \<Rightarrow> (32 word \<times> 32 word) outcome" where
  "nfs41_idmap_principal_to_ids b w context princ =
     (let lookup = principal_lookup princ;
          r = idmap_lookup_user b w context lookup
      in case result r of
           Inl status \<Rightarrow> \<lparr>result = Inl status, queries = queries r, context_out = context_out r\<rparr>
         | Inr user \<Rightarrow>
             \<lparr>result = Inr (uid user, gid user), queries = queries r,
              context_out = context_out r\<rparr>)"

definition nfs41_idmap_group_to_gid ::
  "build \<Rightarrow> world \<Rightarrow> idmap_context option \<Rightarrow> string \<Rightarrow> (32 word) outcome" where
  "nfs41_idmap_group_to_gid b w context gname =
     (let lookup = group_lookup gname;
          r = idmap_lookup_group b w context lookup
      in case result r of
           Inl status \<Rightarrow> \<lparr>result = Inl status, queries = queries r, context_out = context_out r\<rparr>
         | Inr grp \<Rightarrow>
             \<lparr>result = Inr (gid' grp), queries = queries r, context_out = context_out r\<rparr>)"

definition nfs41_idmap_gid_to_group ::
  "build \<Rightarrow> world \<Rightarrow> idmap_context option \<Rightarrow> 32 word \<Rightarrow> nat \<Rightarrow> string outcome" where
  "nfs41_idmap_gid_to_group b w context g len =
     (let lookup = gid_lookup g;
          r = idmap_lookup_group b w context lookup
      in case result r of
           Inl status \<Rightarrow> \<lparr>result = Inl status, queries = queries r, context_out = context_out r\<rparr>
         | Inr grp \<Rightarrow>
             (case StringCchCopyA [] len (name grp) of
                (True, _) \<Rightarrow>
                  \<lparr>result = Inl ERROR_BUFFER_OVERFLOW, queries = queries r,
                   context_out = context_out r\<rparr>
              | (False, name_out) \<Rightarrow>
                  \<lparr>result = Inr name_out, queries = queries r, context_out = context_out r\<rparr>))"

subsection \<open>The grammar of a directory filter, in the words of the specification\<close>

text \<open>
  \<open>(&(objectClass=<class>)(<attribute>=<value>))\<close> with the class of the look-up's kind,
  the configured name of its attribute, and its value: a number in decimal, or the string
  as it is.
\<close>

definition filter_grammar :: "idmap_config \<Rightarrow> 'e idmap_lookup \<Rightarrow> string" where
  "filter_grammar cfg lookup =
     ''(&(objectClass='' @ classes cfg (klass lookup) @ '')('' @ attributes cfg (attr lookup)
       @ ''='' @ (case lookup_value lookup of PTR_UINT u \<Rightarrow> utoa (unat u) | PTR_STR s \<Rightarrow> s)
       @ ''))''"

subsection \<open>The documented defaults\<close>

text \<open>
  The default value of every key of \<open>g_options\<close>, stored in its field; the local domain
  is not a key of the table.
\<close>

definition default_config :: "idmap_config \<Rightarrow> idmap_config" where
  "default_config c =
     \<lparr>hostname = ''localhost'', localdomain_name = localdomain_name c,
      port = 389, version = 3, timeout = 0,
      classes = (\<lambda>k. case k of CLASS_USER \<Rightarrow> ''user'' | CLASS_GROUP \<Rightarrow> ''group''),
      attributes = (\<lambda>a. case a of ATTR_USER_NAME \<Rightarrow> ''cn'' | ATTR_GROUP_NAME \<Rightarrow> ''cn''
                      | ATTR_PRINCIPAL \<Rightarrow> ''gssAuthName'' | ATTR_UID \<Rightarrow> ''uidNumber''
                      | ATTR_GID \<Rightarrow> ''gidNumber''),
      base = ''cn=localhost'', cache_ttl = 6000\<rparr>"

subsection \<open>Example objects\<close>

text \<open>
  A build for the directory backend and one for the local account database, the zeroed
  configuration \<open>calloc\<close> hands to \<open>nfs41_idmap_create\<close> with its local domain, and a
  file system without the configuration file.
\<close>

definition example_build :: build where
  "example_build = \<lparr>NFS41_HOSTNAME_LEN = 64, FEATURE_IDMAPPER_CYGWIN = False\<rparr>"

definition example_build_cygwin :: build where
  "example_build_cygwin = \<lparr>NFS41_HOSTNAME_LEN = 64, FEATURE_IDMAPPER_CYGWIN = True\<rparr>"

definition zero_config :: idmap_config where
  "zero_config =
     \<lparr>hostname = [], localdomain_name = ''example.com'', port = 0, version = 0, timeout = 0,
      classes = (\<lambda>k. []), attributes = (\<lambda>a. []), base = [], cache_ttl = 0\<rparr>"

definition no_file :: "string \<Rightarrow> string list option" where
  "no_file path = None"

text \<open>
  A directory with the user \<open>alice\<close> (found by name and by number), a user \<open>bob\<close> whose
  entry has no \<open>uidNumber\<close>, the group \<open>staff\<close> and a group \<open>wheel\<close> whose entry has no
  \<open>gidNumber\<close>; a local account database with \<open>alice\<close> and \<open>staff\<close>; a world with both, at second 100; a context with the default
  configuration and empty caches; and the cache entries of \<open>alice\<close> and \<open>staff\<close>.
\<close>

definition alice_entry :: ldap_entry where
  "alice_entry a =
     (if a = ''cn'' then [''alice''] else if a = ''uidNumber'' then [''1000'']
      else if a = ''gidNumber'' then [''513''] else [])"

definition bob_entry :: ldap_entry where
  "bob_entry a = (if a = ''cn'' then [''bob''] else if a = ''gidNumber'' then [''513''] else [])"

definition staff_entry :: ldap_entry where
  "staff_entry a = (if a = ''cn'' then [''staff''] else if a = ''gidNumber'' then [''513''] else [])"

definition wheel_entry :: ldap_entry where
  "wheel_entry a = (if a = ''cn'' then [''wheel''] else [])"

definition example_directory :: "string \<Rightarrow> string \<Rightarrow> ldap_code + ldap_entry list" where
  "example_directory search_base flt =
     (if flt = ''(&(objectClass=user)(cn=alice))'' \<or> flt = ''(&(objectClass=user)(uidNumber=1000))''
      then Inr [alice_entry]
      else if flt = ''(&(objectClass=user)(cn=bob))'' then Inr [bob_entry]
      else if flt = ''(&(objectClass=group)(cn=staff))''
              \<or> flt = ''(&(objectClass=group)(gidNumber=513))''
      then Inr [staff_entry]
      else if flt = ''(&(objectClass=group)(cn=wheel))'' then Inr [wheel_entry]
      else Inr [])"

definition example_passwd :: "string \<Rightarrow> (string \<times> 32 word \<times> 32 word) option" where
  "example_passwd n = (if n = ''alice'' \<or> n = ''1000'' then Some (''alice'', 1000, 513) else None)"

definition example_groups :: "string \<Rightarrow> (string \<times> 32 word) option" where
  "example_groups n = (if n = ''staff'' \<or> n = ''513'' then Some (''staff'', 513) else None)"

definition example_world :: world where
  "example_world =
     \<lparr>now_check = 100, now_update = 100, errno_entry = 0, calloc_ok = True,
      last_error = Some (LAST_ERROR 8), ldap_search_stA = example_directory,
      cygwin_getent_passwd = example_passwd, cygwin_getent_group = example_groups\<rparr>"

definition example_context :: idmap_context where
  "example_context = \<lparr>config = default_config zero_config, users = [], groups = []\<rparr>"

definition alice :: idmap_user where
  "alice = \<lparr>username = ''alice'', principal = [], uid = 1000, gid = 513, last_updated = 100\<rparr>"

definition staff :: idmap_group where
  "staff = \<lparr>name = ''staff'', gid' = 513, last_updated' = 100\<rparr>"

section \<open>Properties\<close>

subsection \<open>Strings\<close>







lemma strcmp_eq: "(strcmp a b = 0) = (a = b)"
  by (induction a b rule: strcmp.induct) auto

lemma isspace_not_hash [simp]: "\<not> isspace CHR ''#''"
  by (simp add: isspace_def)

lemma isspace_not_eq [simp]: "\<not> isspace CHR ''=''"
  by (simp add: isspace_def)








subsection \<open>The lines of the configuration file\<close>






text \<open>
  What the code does with lines the grammar leaves open: text after the closing quote is
  ignored, an unquoted value runs to the end of the line and may hold \<open>=\<close>, and a \<open>#\<close>
  between quotes starts a comment all the same.
\<close>

lemma config_line_lenient_examples:
  "config_line (''foo = '' @ [CHR 0x22] @ ''bar'' @ [CHR 0x22] @ '' baz'') = Line_Pair ''foo'' ''bar''"
  "config_line ''a = b = c'' = Line_Pair ''a'' ''b = c''"
  "config_line (''foo = '' @ [CHR 0x22] @ ''a#b'' @ [CHR 0x22]) = Line_Rejected"
  "config_line (''foo = '' @ [CHR 0x22, CHR 0x22]) = Line_Pair ''foo'' []"
  "config_line ''foo ='' = Line_Rejected"
  "config_line ''= bar'' = Line_Rejected"
  by (simp_all add: config_line_def config_skip_line_def config_parse_pair_def isspace_def)



subsection \<open>Numbers in the configuration\<close>

lemma parse_uint_examples:
  "parse_uint en ''123'' = Some 123"
  "parse_uint en ''123abc'' = None"
  "parse_uint en ''4294967296'' = None"
  "parse_uint en ''99999999999'' = None"
  by (simp_all add: parse_uint_def strtoul_def isspace_def isdigit_def digit_val_def
      ULONG_MAX_def)

lemma parse_uint_defaults:
  "parse_uint en ''389'' = Some 389" "parse_uint en ''3'' = Some 3"
  "parse_uint en ''0'' = Some 0" "parse_uint en ''6000'' = Some 6000"
  by (simp_all add: parse_uint_def strtoul_def isspace_def isdigit_def digit_val_def
      ULONG_MAX_def)

lemma parse_uint_empty: "parse_uint en [] = Some 0"
  by (simp add: parse_uint_def strtoul_def ULONG_MAX_def)

text \<open>
  On a string of one or more digits \<open>parse_uint\<close> yields its value when that fits 32
  bits, unless the value is \<open>ULONG_MAX\<close> and \<open>errno\<close> is still \<open>ERANGE\<close> from an earlier
  call. \<open>strtoul\<close> also takes leading white space and a sign.
\<close>

lemma isdigit_not_isspace: "isdigit c \<Longrightarrow> \<not> isspace c"
  by (auto simp add: isdigit_def isspace_def)

lemma isdigit_not_sign: "isdigit c \<Longrightarrow> c \<noteq> CHR ''-'' \<and> c \<noteq> CHR ''+''"
  by (auto simp add: isdigit_def)

lemma strtoul_digits_count: "list_all isdigit ds \<Longrightarrow> \<exists>v. strtoul_digits ds acc = (v, length ds)"
proof (induction ds arbitrary: acc)
  case Nil
  then show ?case by simp
next
  case (Cons d ds)
  then obtain v where "strtoul_digits ds (10 * acc + digit_val d) = (v, length ds)"
    by fastforce
  then show ?case using Cons.prems by simp
qed

lemma parse_uint_digits:
  assumes ne: "ds \<noteq> []" and dg: "list_all isdigit ds"
  shows "parse_uint en ds =
     (if fst (strtoul_digits ds 0) < 2 ^ 32
         \<and> \<not> (fst (strtoul_digits ds 0) = 2 ^ 32 - 1 \<and> en = ERANGE)
      then Some (of_nat (fst (strtoul_digits ds 0))) else None)"
proof -
  obtain c cs where ds: "ds = c # cs" using ne by (cases ds) auto
  have c: "isdigit c" using dg ds by simp
  have sp: "\<not> isspace c" using c by (simp add: isdigit_not_isspace)
  obtain v where v: "strtoul_digits (c # cs) 0 = (v, Suc (length cs))"
    using strtoul_digits_count [OF dg, of 0] ds by auto
  have vn: "strtoul_digits ds 0 = (v, length ds)" using v ds by simp
  have st: "strtoul ds en =
      (if 2 ^ 32 \<le> v then (ULONG_MAX, length ds, ERANGE) else (of_nat v, length ds, en))"
    unfolding strtoul_def ds using sp isdigit_not_sign [OF c] v
    by (simp del: strtoul_digits.simps)
  have mx: "v < 2 ^ 32 \<Longrightarrow> ((of_nat v :: 32 word) = ULONG_MAX) = (v = 2 ^ 32 - 1)"
  proof -
    assume lt: "v < 2 ^ 32"
    have "unat (of_nat v :: 32 word) = v" using lt by (simp add: unat_of_nat)
    moreover have "unat ULONG_MAX = 2 ^ 32 - 1" by (simp add: ULONG_MAX_def)
    ultimately show ?thesis by (metis word_unat_eq_iff)
  qed
  show ?thesis
  proof (cases "2 ^ 32 \<le> v")
    case True
    then show ?thesis using st vn by (simp add: parse_uint_def)
  next
    case False
    then have lt: "v < 2 ^ 32" by simp
    show ?thesis using st vn lt False mx [OF lt] by (auto simp add: parse_uint_def)
  qed
qed

lemma parse_uint_strtoul_forms:
  "parse_uint 0 ''-1'' = Some 4294967295"
  "parse_uint 0 '' +7'' = Some 7"
  "parse_uint ERANGE ''4294967295'' = None"
  "parse_uint 0 ''4294967295'' = Some 4294967295"
  by (simp_all add: parse_uint_def strtoul_def isspace_def isdigit_def digit_val_def
      ULONG_MAX_def ERANGE_def)

text \<open>
  C4. \<open>parse_uint\<close> accepts the empty string, which is no unsigned decimal number, and
  yields 0: \<open>strtoul\<close> converts nothing and leaves \<open>endp\<close> at the start, and the test
  \<open>(endp - str) < strlen(str)\<close> is \<open>0 < 0\<close>. The line \<open>cache_ttl = ""\<close> of a configuration
  file therefore loads and sets the field to 0.
\<close>

theorem parse_uint_accepts_empty_string:
  "parse_uint en [] = Some 0
   \<and> config_load_lines b en [''cache_ttl = '' @ [CHR 0x22, CHR 0x22]] cfg
       = Inr (cfg\<lparr>cache_ttl := 0\<rparr>)"
  by (simp add: config_skip_line_def config_parse_pair_def isspace_def config_find_option_def
      g_options_def OPT_INT_def OPT_STR_def OPT_CLASS_def OPT_ATTR_def stricmp_def strcmp_eq
      tolower_def parse_uint_empty)

subsection \<open>The defaults\<close>

lemma config_defaults_ok:
  assumes "9 \<le> NFS41_HOSTNAME_LEN b"
  shows "config_defaults b en c = Inr (default_config c)"
proof -
  have cl: "(classes c)(CLASS_USER := ''user'', CLASS_GROUP := ''group'') =
      (\<lambda>k. case k of CLASS_USER \<Rightarrow> ''user'' | CLASS_GROUP \<Rightarrow> ''group'')"
    by (rule ext) (simp split: ldap_class.splits)
  have at: "(attributes c)(ATTR_USER_NAME := ''cn'', ATTR_GROUP_NAME := ''cn'',
        ATTR_PRINCIPAL := ''gssAuthName'', ATTR_UID := ''uidNumber'', ATTR_GID := ''gidNumber'') =
      (\<lambda>a. case a of ATTR_USER_NAME \<Rightarrow> ''cn'' | ATTR_GROUP_NAME \<Rightarrow> ''cn''
                      | ATTR_PRINCIPAL \<Rightarrow> ''gssAuthName'' | ATTR_UID \<Rightarrow> ''uidNumber''
                      | ATTR_GID \<Rightarrow> ''gidNumber'')"
    by (rule ext) (simp split: ldap_attr.splits)
  show ?thesis
    using assms
    by (simp add: config_defaults_def g_options_def OPT_INT_def OPT_STR_def OPT_CLASS_def
        OPT_ATTR_def parse_uint_defaults StringCchCopyA_def NAME_LEN_def VAL_LEN_def
        default_config_def cl at)
qed

text \<open>
  C5. When the configuration file cannot be opened, \<open>config_load\<close> succeeds and leaves
  the configuration as it is, for every path, and \<open>config_init\<close> succeeds with the
  default value of every key of the table (provided the default host name fits its field).
\<close>

theorem config_init_missing_file:
  assumes "fopen path = None" and "fopen CONFIG_FILENAME = None"
    and "length ''localhost'' \<le> NFS41_HOSTNAME_LEN b"
  shows "config_load b fopen en c path = Inr c
         \<and> config_init b fopen en c = Inr (default_config c)"
  using assms by (simp add: config_init_def config_defaults_ok config_load_def)

theorem config_init_missing_file_witness:
  "config_load example_build no_file 0 zero_config ''idmap.conf'' = Inr zero_config
   \<and> config_init example_build no_file 0 zero_config
       = Inr \<lparr>hostname = ''localhost'', localdomain_name = ''example.com'',
              port = 389, version = 3, timeout = 0,
              classes = (\<lambda>k. case k of CLASS_USER \<Rightarrow> ''user'' | CLASS_GROUP \<Rightarrow> ''group''),
              attributes = (\<lambda>a. case a of ATTR_USER_NAME \<Rightarrow> ''cn'' | ATTR_GROUP_NAME \<Rightarrow> ''cn''
                      | ATTR_PRINCIPAL \<Rightarrow> ''gssAuthName'' | ATTR_UID \<Rightarrow> ''uidNumber''
                      | ATTR_GID \<Rightarrow> ''gidNumber''),
              base = ''cn=localhost'', cache_ttl = 6000\<rparr>"
  using config_init_missing_file [of no_file "''idmap.conf''" example_build 0 zero_config]
  by (simp add: no_file_def example_build_def default_config_def zero_config_def)

subsection \<open>The filter of a directory query\<close>

lemma format_filter_uint:
  "format ''(&(objectClass=%s)(%s=%u))'' [ARG_STR a, ARG_STR b, ARG_UINT u]
     = ''(&(objectClass='' @ a @ '')('' @ b @ ''='' @ utoa (unat u) @ ''))''"
  by simp

lemma format_filter_str:
  "format ''(&(objectClass=%s)(%s=%s))'' [ARG_STR a, ARG_STR b, ARG_STR c]
     = ''(&(objectClass='' @ a @ '')('' @ b @ ''='' @ c @ ''))''"
  by simp

lemma idmap_filter_eq:
  "idmap_filter cfg lookup FILTER_LEN =
     (if length (filter_grammar cfg lookup) < FILTER_LEN then Inr (filter_grammar cfg lookup)
      else Inl ERROR_BUFFER_OVERFLOW)"
proof (cases "lookup_value lookup")
  case (PTR_STR s)
  then show ?thesis
    unfolding idmap_filter_def lookup_type_def StringCchPrintfA_def format_filter_str filter_grammar_def
    by (simp add: FILTER_LEN_def)
next
  case (PTR_UINT u)
  then show ?thesis
    unfolding idmap_filter_def lookup_type_def StringCchPrintfA_def format_filter_uint filter_grammar_def Let_def
    by (simp add: FILTER_LEN_def)
qed

lemma idmap_query_attrs_overflow:
  "\<not> length (filter_grammar (config ctx) lookup) < FILTER_LEN \<Longrightarrow>
     idmap_query_attrs w ctx lookup attrs opt vals len = (0, Inl ERROR_BUFFER_OVERFLOW)"
  by (simp add: idmap_query_attrs_def idmap_filter_eq)

lemma isdigit_char_of: "d < 10 \<Longrightarrow> isdigit (char_of (48 + d)) \<and> digit_val (char_of (48 + d)) = d"
  by (simp add: isdigit_def digit_val_def)

lemma strtoul_digits_append:
  "list_all isdigit xs \<Longrightarrow>
     strtoul_digits (xs @ ys) acc =
       (case strtoul_digits xs acc of (v, n) \<Rightarrow>
          case strtoul_digits ys v of (v', n') \<Rightarrow> (v', n + n'))"
  by (induction xs arbitrary: acc) (auto split: prod.splits)

lemma utoa_digits: "list_all isdigit (utoa n)"
proof (induction n rule: utoa.induct)
  case (1 n)
  show ?case
  proof (cases "n < 10")
    case True
    then show ?thesis using isdigit_char_of [of n] by (subst utoa.simps) simp
  next
    case False
    then show ?thesis using 1 isdigit_char_of [of "n mod 10"] by (subst utoa.simps) simp
  qed
qed

lemma utoa_value: "strtoul_digits (utoa n) acc = (10 ^ length (utoa n) * acc + n, length (utoa n))"
proof (induction n arbitrary: acc rule: utoa.induct)
  case (1 n)
  show ?case
  proof (cases "n < 10")
    case True
    then show ?thesis using isdigit_char_of [of n] by (subst (1 2 3) utoa.simps) simp
  next
    case False
    have s: "utoa n = utoa (n div 10) @ [char_of (48 + n mod 10)]"
      using False by (subst utoa.simps) simp
    show ?thesis
      using False 1 [OF False] isdigit_char_of [of "n mod 10"] utoa_digits [of "n div 10"]
      by (simp add: s strtoul_digits_append algebra_simps)
  qed
qed

subsection \<open>The attributes of a directory entry\<close>

lemma fetch_attributes_missing:
  "a \<in> set as \<Longrightarrow> ATTR_ISSET attrs a \<Longrightarrow> \<not> ATTR_ISSET opt a \<Longrightarrow>
   ldap_get_valuesA entry (attributes cfg a) = None \<Longrightarrow>
   fetch_attributes cfg entry attrs opt as vals = Inl (LdapMapErrorToWin32 LDAP_NO_SUCH_ATTRIBUTE)"
  by (induction as arbitrary: vals) (auto simp: Let_def)

lemma fetch_attributes_present:
  "\<forall>a\<in>set as. ATTR_ISSET attrs a \<and> \<not> ATTR_ISSET opt a \<longrightarrow>
      ldap_get_valuesA entry (attributes cfg a) \<noteq> None \<Longrightarrow>
   fetch_attributes cfg entry attrs opt as vals =
     Inr (\<lambda>a. if a \<in> set as \<and> ATTR_ISSET attrs a
               then ldap_get_valuesA entry (attributes cfg a) else vals a)"
proof (induction as arbitrary: vals)
  case Nil
  then show ?case by simp
next
  case (Cons x as)
  have IH: "\<And>vals. fetch_attributes cfg entry attrs opt as vals =
     Inr (\<lambda>a. if a \<in> set as \<and> ATTR_ISSET attrs a
               then ldap_get_valuesA entry (attributes cfg a) else vals a)"
    using Cons by simp
  show ?case
  proof (cases "ATTR_ISSET attrs x")
    case True
    then have "\<not> (ldap_get_valuesA entry (attributes cfg x) = None \<and> \<not> ATTR_ISSET opt x)"
      using Cons.prems by auto
    then show ?thesis using True by (auto simp add: IH Let_def)
  next
    case False
    then show ?thesis by (auto simp add: IH)
  qed
qed

lemma idmap_query_attrs_found:
  "idmap_filter (config ctx) lookup FILTER_LEN = Inr flt \<Longrightarrow>
   ldap_search_stA w (base (config ctx)) flt = Inr (entry # others) \<Longrightarrow>
   idmap_query_attrs w ctx lookup attrs opt vals len =
     (1, fetch_attributes (config ctx) entry attrs opt (take len ldap_attrs) vals)"
  by (simp add: idmap_query_attrs_def ldap_first_entry_def)

lemma ATTR_ISSET_user:
  "ATTR_ISSET (ATTR_FLAG ATTR_USER_NAME OR ATTR_FLAG ATTR_PRINCIPAL OR ATTR_FLAG ATTR_UID
      OR ATTR_FLAG ATTR_GID) a = (a \<noteq> ATTR_GROUP_NAME)"
  "ATTR_ISSET (ATTR_FLAG ATTR_PRINCIPAL) a = (a = ATTR_PRINCIPAL)"
  "ATTR_ISSET (ATTR_FLAG ATTR_GROUP_NAME OR ATTR_FLAG ATTR_GID) a
     = (a = ATTR_GROUP_NAME \<or> a = ATTR_GID)"
  "ATTR_ISSET 0 a = False"
  by (cases a; simp add: ATTR_ISSET_def ATTR_FLAG_def)+

lemma lookup_user_failure_keeps_context:
  "result (idmap_lookup_user b w (Some ctx) lookup) = Inl e \<Longrightarrow>
     context_out (idmap_lookup_user b w (Some ctx) lookup) = Some ctx"
  by (auto simp add: idmap_lookup_user_def Let_def split: sum.splits prod.splits if_splits)

lemma lookup_group_failure_keeps_context:
  "result (idmap_lookup_group b w (Some ctx) lookup) = Inl e \<Longrightarrow>
     context_out (idmap_lookup_group b w (Some ctx) lookup) = Some ctx"
  by (auto simp add: idmap_lookup_group_def Let_def split: sum.splits prod.splits if_splits)

subsection \<open>Look-ups through the cache\<close>

lemma lookup_user_fresh:
  "cache_lookup user_cache_ops (users ctx) lookup = Inr e \<Longrightarrow>
   now_check w - last_updated e < sint (cache_ttl (config ctx)) \<Longrightarrow>
   idmap_lookup_user b w (Some ctx) lookup
     = \<lparr>result = Inr e, queries = 0, context_out = Some ctx\<rparr>"
  by (simp add: idmap_lookup_user_def UTIL_DIFFRELTIME_def)

lemma lookup_user_miss:
  "cache_lookup user_cache_ops (users ctx) lookup = Inl st \<Longrightarrow>
   idmap_lookup_user b w (Some ctx) lookup =
     (case idmap_lookup_user_backend b w ctx lookup of
        (n, Inl status) \<Rightarrow> \<lparr>result = Inl status, queries = n, context_out = Some ctx\<rparr>
      | (n, Inr user) \<Rightarrow>
          \<lparr>result = Inr user, queries = n,
           context_out = Some (if cache_ttl (config ctx) \<noteq> 0
             then ctx\<lparr>users := snd (cache_insert user_cache_ops (calloc_ok w) (last_error w)
                                      (users ctx) lookup user)\<rparr>
             else ctx)\<rparr>)"
  by (simp add: idmap_lookup_user_def split: prod.splits sum.splits)

lemma lookup_user_stale:
  "cache_lookup user_cache_ops (users ctx) lookup = Inr e \<Longrightarrow>
   \<not> now_check w - last_updated e < sint (cache_ttl (config ctx)) \<Longrightarrow>
   idmap_lookup_user b w (Some ctx) lookup =
     (case idmap_lookup_user_backend b w ctx lookup of
        (n, Inl status) \<Rightarrow> \<lparr>result = Inl status, queries = n, context_out = Some ctx\<rparr>
      | (n, Inr user) \<Rightarrow>
          \<lparr>result = Inr user, queries = n,
           context_out = Some (if cache_ttl (config ctx) \<noteq> 0
             then ctx\<lparr>users := snd (cache_insert user_cache_ops (calloc_ok w) (last_error w)
                                      (users ctx) lookup user)\<rparr>
             else ctx)\<rparr>)"
  by (simp add: idmap_lookup_user_def UTIL_DIFFRELTIME_def split: prod.splits sum.splits)

lemma lookup_group_fresh:
  "cache_lookup group_cache_ops (groups ctx) lookup = Inr e \<Longrightarrow>
   now_check w - last_updated' e < sint (cache_ttl (config ctx)) \<Longrightarrow>
   idmap_lookup_group b w (Some ctx) lookup
     = \<lparr>result = Inr e, queries = 0, context_out = Some ctx\<rparr>"
  by (simp add: idmap_lookup_group_def UTIL_DIFFRELTIME_def)

lemma lookup_group_miss:
  "cache_lookup group_cache_ops (groups ctx) lookup = Inl st \<Longrightarrow>
   idmap_lookup_group b w (Some ctx) lookup =
     (case idmap_lookup_group_backend b w ctx lookup of
        (n, Inl status) \<Rightarrow> \<lparr>result = Inl status, queries = n, context_out = Some ctx\<rparr>
      | (n, Inr grp) \<Rightarrow>
          \<lparr>result = Inr grp, queries = n,
           context_out = Some (if cache_ttl (config ctx) \<noteq> 0
             then ctx\<lparr>groups := snd (cache_insert group_cache_ops (calloc_ok w) (last_error w)
                                      (groups ctx) lookup grp)\<rparr>
             else ctx)\<rparr>)"
  by (simp add: idmap_lookup_group_def split: prod.splits sum.splits)

lemma lookup_group_stale:
  "cache_lookup group_cache_ops (groups ctx) lookup = Inr e \<Longrightarrow>
   \<not> now_check w - last_updated' e < sint (cache_ttl (config ctx)) \<Longrightarrow>
   idmap_lookup_group b w (Some ctx) lookup =
     (case idmap_lookup_group_backend b w ctx lookup of
        (n, Inl status) \<Rightarrow> \<lparr>result = Inl status, queries = n, context_out = Some ctx\<rparr>
      | (n, Inr grp) \<Rightarrow>
          \<lparr>result = Inr grp, queries = n,
           context_out = Some (if cache_ttl (config ctx) \<noteq> 0
             then ctx\<lparr>groups := snd (cache_insert group_cache_ops (calloc_ok w) (last_error w)
                                      (groups ctx) lookup grp)\<rparr>
             else ctx)\<rparr>)"
  by (simp add: idmap_lookup_group_def UTIL_DIFFRELTIME_def split: prod.splits sum.splits)

lemma user_ldap_queries:
  "fst (idmap_lookup_user_ldap w ctx lookup) =
     (if length (filter_grammar (config ctx) lookup) < FILTER_LEN then 1 else 0)"
  by (simp add: idmap_lookup_user_ldap_def idmap_query_attrs_def idmap_filter_eq Let_def)

lemma group_ldap_queries:
  "fst (idmap_lookup_group_ldap w ctx lookup) =
     (if length (filter_grammar (config ctx) lookup) < FILTER_LEN then 1 else 0)"
  by (simp add: idmap_lookup_group_ldap_def idmap_query_attrs_def idmap_filter_eq Let_def)

lemma user_ldap_overflow:
  "\<not> length (filter_grammar (config ctx) lookup) < FILTER_LEN \<Longrightarrow>
   idmap_lookup_user_ldap w ctx lookup = (0, Inl ERROR_BUFFER_OVERFLOW)"
  by (simp add: idmap_lookup_user_ldap_def idmap_query_attrs_overflow Let_def)

lemma group_ldap_overflow:
  "\<not> length (filter_grammar (config ctx) lookup) < FILTER_LEN \<Longrightarrow>
   idmap_lookup_group_ldap w ctx lookup = (0, Inl ERROR_BUFFER_OVERFLOW)"
  by (simp add: idmap_lookup_group_ldap_def idmap_query_attrs_overflow Let_def)

lemma user_cygwin_queries:
  "attr lookup = ATTR_USER_NAME \<or> attr lookup = ATTR_PRINCIPAL \<or> attr lookup = ATTR_UID \<Longrightarrow>
   fst (idmap_lookup_user_cygwin w ctx lookup) =
     (if attr lookup = ATTR_PRINCIPAL \<and> \<not> length (PTR2STR (lookup_value lookup)) < VAL_LEN
      then 0 else 1)"
  by (auto simp add: idmap_lookup_user_cygwin_def strcpy_s_def Let_def)

lemma group_cygwin_queries:
  "attr lookup = ATTR_GROUP_NAME \<or> attr lookup = ATTR_GID \<Longrightarrow>
   fst (idmap_lookup_group_cygwin w ctx lookup) = 1"
  by (auto simp add: idmap_lookup_group_cygwin_def Let_def)

lemma user_backend_queries:
  "attr lookup = ATTR_USER_NAME \<or> attr lookup = ATTR_PRINCIPAL \<or> attr lookup = ATTR_UID \<Longrightarrow>
   fst (idmap_lookup_user_backend b w ctx lookup) =
     (if FEATURE_IDMAPPER_CYGWIN b
      then (if attr lookup = ATTR_PRINCIPAL \<and> \<not> length (PTR2STR (lookup_value lookup)) < VAL_LEN
            then 0 else 1)
      else (if length (filter_grammar (config ctx) lookup) < FILTER_LEN then 1 else 0))"
  by (simp add: idmap_lookup_user_backend_def user_ldap_queries user_cygwin_queries)

lemma group_backend_queries:
  "attr lookup = ATTR_GROUP_NAME \<or> attr lookup = ATTR_GID \<Longrightarrow>
   fst (idmap_lookup_group_backend b w ctx lookup) =
     (if FEATURE_IDMAPPER_CYGWIN b then 1
      else (if length (filter_grammar (config ctx) lookup) < FILTER_LEN then 1 else 0))"
  by (simp add: idmap_lookup_group_backend_def group_ldap_queries group_cygwin_queries)

lemma list_search_Some:
  "list_search es v cmp = Some i \<Longrightarrow> i < length es \<and> cmp (es ! i) v = 0"
  by (induction es arbitrary: i) (auto split: if_splits)

lemma list_search_None: "(list_search es v cmp = None) = (\<forall>e\<in>set es. cmp e v \<noteq> 0)"
  by (induction es) auto

lemma cache_lookup_user_stamp:
  "cache_lookup user_cache_ops cache lookup = Inr e \<Longrightarrow>
     \<exists>e'\<in>set cache. last_updated e = last_updated e'"
  by (auto simp add: cache_lookup_def user_cache_ops_def user_cache_copy_def
      split: option.splits dest!: list_search_Some)

lemma cache_lookup_group_stamp:
  "cache_lookup group_cache_ops cache lookup = Inr e \<Longrightarrow>
     \<exists>e'\<in>set cache. last_updated' e = last_updated' e'"
  by (auto simp add: cache_lookup_def group_cache_ops_def group_cache_copy_def
      split: option.splits dest!: list_search_Some)

lemma cache_lookup_cases:
  "cache_lookup ops cache lookup = Inl ERROR_NOT_FOUND \<or> (\<exists>e. cache_lookup ops cache lookup = Inr e)"
  by (simp add: cache_lookup_def split: option.splits)

lemma lookup_user_queries:
  "queries (idmap_lookup_user b w (Some ctx) lookup) =
     (case cache_lookup user_cache_ops (users ctx) lookup of
        Inl st \<Rightarrow> fst (idmap_lookup_user_backend b w ctx lookup)
      | Inr e \<Rightarrow> if now_check w - last_updated e < sint (cache_ttl (config ctx)) then 0
                 else fst (idmap_lookup_user_backend b w ctx lookup))"
  by (auto simp add: lookup_user_fresh lookup_user_miss lookup_user_stale split: sum.splits prod.splits)

lemma lookup_group_queries:
  "queries (idmap_lookup_group b w (Some ctx) lookup) =
     (case cache_lookup group_cache_ops (groups ctx) lookup of
        Inl st \<Rightarrow> fst (idmap_lookup_group_backend b w ctx lookup)
      | Inr e \<Rightarrow> if now_check w - last_updated' e < sint (cache_ttl (config ctx)) then 0
                 else fst (idmap_lookup_group_backend b w ctx lookup))"
  by (auto simp add: lookup_group_fresh lookup_group_miss lookup_group_stale split: sum.splits prod.splits)

lemma lookup_user_ttl0:
  assumes "cache_ttl (config ctx) = 0" and "\<forall>e\<in>set (users ctx). last_updated e \<le> now_check w"
  shows "idmap_lookup_user b w (Some ctx) lookup =
     \<lparr>result = snd (idmap_lookup_user_backend b w ctx lookup),
      queries = fst (idmap_lookup_user_backend b w ctx lookup), context_out = Some ctx\<rparr>"
proof (cases "cache_lookup user_cache_ops (users ctx) lookup")
  case (Inl st)
  then show ?thesis using assms by (simp add: lookup_user_miss split: prod.splits sum.splits)
next
  case (Inr e)
  then have "\<not> now_check w - last_updated e < sint (cache_ttl (config ctx))"
    using assms cache_lookup_user_stamp [OF Inr] by auto
  then show ?thesis using Inr assms by (simp add: lookup_user_stale split: prod.splits sum.splits)
qed

lemma lookup_group_ttl0:
  assumes "cache_ttl (config ctx) = 0" and "\<forall>e\<in>set (groups ctx). last_updated' e \<le> now_check w"
  shows "idmap_lookup_group b w (Some ctx) lookup =
     \<lparr>result = snd (idmap_lookup_group_backend b w ctx lookup),
      queries = fst (idmap_lookup_group_backend b w ctx lookup), context_out = Some ctx\<rparr>"
proof (cases "cache_lookup group_cache_ops (groups ctx) lookup")
  case (Inl st)
  then show ?thesis using assms by (simp add: lookup_group_miss split: prod.splits sum.splits)
next
  case (Inr e)
  then have "\<not> now_check w - last_updated' e < sint (cache_ttl (config ctx))"
    using assms cache_lookup_group_stamp [OF Inr] by auto
  then show ?thesis using Inr assms by (simp add: lookup_group_stale split: prod.splits sum.splits)
qed

subsection \<open>The example directory and account database\<close>

lemma utoa_1000: "utoa 1000 = ''1000''"
  by code_simp

lemma utoa_513: "utoa 513 = ''513''"
  by code_simp

lemma parse_uint_1000: "parse_uint en ''1000'' = Some 1000" "parse_uint en ''513'' = Some 513"
  by (simp_all add: parse_uint_def strtoul_def isspace_def isdigit_def digit_val_def
      ULONG_MAX_def)

lemma default_config_fields:
  "attributes (default_config c) ATTR_USER_NAME = ''cn''"
  "attributes (default_config c) ATTR_GROUP_NAME = ''cn''"
  "attributes (default_config c) ATTR_PRINCIPAL = ''gssAuthName''"
  "attributes (default_config c) ATTR_UID = ''uidNumber''"
  "attributes (default_config c) ATTR_GID = ''gidNumber''"
  "classes (default_config c) CLASS_USER = ''user''"
  "classes (default_config c) CLASS_GROUP = ''group''"
  "base (default_config c) = ''cn=localhost''"
  "cache_ttl (default_config c) = 6000"
  "localdomain_name (default_config c) = localdomain_name c"
  by (simp_all add: default_config_def)

lemma idmap_filter_default:
  "idmap_filter (default_config c) (username_lookup n) FILTER_LEN =
     (if length n < 998 then Inr (''(&(objectClass=user)(cn='' @ n @ ''))'') else Inl ERROR_BUFFER_OVERFLOW)"
  "idmap_filter (default_config c) (uid_lookup 1000) FILTER_LEN = Inr ''(&(objectClass=user)(uidNumber=1000))''"
  unfolding idmap_filter_eq
  by (auto simp add: filter_grammar_def default_config_fields username_lookup_def
      uid_lookup_def UID_T2PTR_def utoa_1000 FILTER_LEN_def)

lemma ldap_alice_by_name:
  assumes "ldap_search_stA w = example_directory" and "config ctx = default_config zero_config"
  shows "idmap_lookup_user_ldap w ctx (username_lookup ''alice'')
     = (1, Inr \<lparr>username = ''alice'', principal = [], uid = 1000, gid = 513,
                 last_updated = now_update w\<rparr>)"
  using assms
  by (simp add: idmap_lookup_user_ldap_def idmap_query_attrs_def idmap_filter_default
      example_directory_def ldap_first_entry_def NUM_ATTRIBUTES_def ldap_attrs_def
      ATTR_ISSET_user ldap_get_valuesA_def alice_entry_def default_config_fields first_value_def
      StringCchCopyA_def VAL_LEN_def parse_uint_1000)

lemma ldap_alice_by_uid:
  assumes "ldap_search_stA w = example_directory" and "config ctx = default_config zero_config"
  shows "idmap_lookup_user_ldap w ctx (uid_lookup 1000)
     = (1, Inr \<lparr>username = ''alice'', principal = [], uid = 1000, gid = 513,
                 last_updated = now_update w\<rparr>)"
  using assms
  by (simp add: idmap_lookup_user_ldap_def idmap_query_attrs_def idmap_filter_default
      example_directory_def ldap_first_entry_def NUM_ATTRIBUTES_def ldap_attrs_def
      ATTR_ISSET_user ldap_get_valuesA_def alice_entry_def default_config_fields first_value_def
      StringCchCopyA_def VAL_LEN_def parse_uint_1000)

lemma ldap_bob_by_name:
  assumes "ldap_search_stA w = example_directory" and "config ctx = default_config zero_config"
  shows "idmap_lookup_user_ldap w ctx (username_lookup ''bob'')
     = (1, Inl (LdapMapErrorToWin32 LDAP_NO_SUCH_ATTRIBUTE))"
  using assms
  by (simp add: idmap_lookup_user_ldap_def idmap_query_attrs_def idmap_filter_default
      example_directory_def ldap_first_entry_def NUM_ATTRIBUTES_def ldap_attrs_def
      ATTR_ISSET_user ldap_get_valuesA_def bob_entry_def default_config_fields)



lemma ldap_staff_by_name:
  assumes "ldap_search_stA w = example_directory" and "config ctx = default_config zero_config"
  shows "idmap_lookup_group_ldap w ctx (group_lookup ''staff'')
     = (1, Inr \<lparr>name = ''staff'', gid' = 513, last_updated' = now_update w\<rparr>)"
  using assms
  unfolding idmap_lookup_group_ldap_def idmap_query_attrs_def idmap_filter_eq
  by (simp add: filter_grammar_def group_lookup_def FILTER_LEN_def
      example_directory_def ldap_first_entry_def NUM_ATTRIBUTES_def ldap_attrs_def
      ATTR_ISSET_user ldap_get_valuesA_def staff_entry_def default_config_fields first_value_def
      StringCchCopyA_def VAL_LEN_def parse_uint_1000)

lemma ldap_wheel_by_name:
  assumes "ldap_search_stA w = example_directory" and "config ctx = default_config zero_config"
  shows "idmap_lookup_group_ldap w ctx (group_lookup ''wheel'')
     = (1, Inl (LdapMapErrorToWin32 LDAP_NO_SUCH_ATTRIBUTE))"
  using assms
  unfolding idmap_lookup_group_ldap_def idmap_query_attrs_def idmap_filter_eq
  by (simp add: filter_grammar_def group_lookup_def FILTER_LEN_def
      example_directory_def ldap_first_entry_def NUM_ATTRIBUTES_def ldap_attrs_def
      ATTR_ISSET_user ldap_get_valuesA_def wheel_entry_def default_config_fields)

lemma example_fields:
  "ldap_search_stA example_world = example_directory"
  "config example_context = default_config zero_config"
  "users example_context = []" "groups example_context = []"
  "now_check example_world = 100" "now_update example_world = 100"
  "calloc_ok example_world" "last_error example_world = Some (LAST_ERROR 8)"
  "cygwin_getent_passwd example_world = example_passwd"
  "cygwin_getent_group example_world = example_groups"
  "\<not> FEATURE_IDMAPPER_CYGWIN example_build" "FEATURE_IDMAPPER_CYGWIN example_build_cygwin"
  by (simp_all add: example_world_def example_context_def example_build_def
      example_build_cygwin_def)

lemma cache_lookup_empty: "cache_lookup ops [] lookup = Inl ERROR_NOT_FOUND"
  by (simp add: cache_lookup_def)

subsection \<open>Claims about the directory backend\<close>

text \<open>
  C7. The filter of a look-up is exactly \<open>(&(objectClass=<class>)(<attribute>=<value>))\<close>,
  the value an unsigned number in decimal (digits that read back as the number) or the
  string as it is, without escaping. A filter that does not fit the buffer of
  \<open>FILTER_LEN\<close> characters with its terminator makes \<open>idmap_filter\<close>, and with it the
  query, fail with \<open>ERROR_BUFFER_OVERFLOW\<close> before any search is sent.
\<close>

theorem idmap_filter_grammar:
  "idmap_filter cfg lookup FILTER_LEN =
     (if length (filter_grammar cfg lookup) < FILTER_LEN then Inr (filter_grammar cfg lookup)
      else Inl ERROR_BUFFER_OVERFLOW)
   \<and> (FILTER_LEN \<le> length (filter_grammar (config ctx) lookup) \<longrightarrow>
        idmap_query_attrs w ctx lookup attrs opt vals len = (0, Inl ERROR_BUFFER_OVERFLOW))
   \<and> list_all isdigit (utoa n) \<and> fst (strtoul_digits (utoa n) 0) = n"
  apply (intro conjI impI)
  subgoal by (rule idmap_filter_eq)
  subgoal by (rule idmap_query_attrs_overflow) simp
  subgoal by (rule utoa_digits)
  subgoal by (simp add: utoa_value)
  done

theorem idmap_filter_grammar_witness:
  "idmap_filter (default_config zero_config) (uid_lookup 1000) FILTER_LEN
     = Inr ''(&(objectClass=user)(uidNumber=1000))''
   \<and> idmap_filter (default_config zero_config) (username_lookup ''alice'') FILTER_LEN
     = Inr ''(&(objectClass=user)(cn=alice))''
   \<and> idmap_query_attrs example_world example_context
        (username_lookup (replicate 1000 CHR ''a'')) 0 0 (\<lambda>a. None) 5
     = (0, Inl ERROR_BUFFER_OVERFLOW)"
  using idmap_filter_grammar [of "default_config zero_config" "uid_lookup 1000" example_context
      example_world "0" "0" "\<lambda>a. None" 5 0]
    idmap_filter_grammar [of "default_config zero_config" "username_lookup ''alice''" example_context
      example_world "0" "0" "\<lambda>a. None" 5 0]
    idmap_filter_grammar [of "default_config zero_config" "username_lookup (replicate 1000 CHR ''a'')"
      example_context  example_world "0" "0" "\<lambda>a. None" 5 0]
  by (simp add: filter_grammar_def default_config_def zero_config_def uid_lookup_def
      username_lookup_def UID_T2PTR_def utoa_1000 FILTER_LEN_def example_context_def)

text \<open>
  C6. When the directory has answered a query with an entry: an attribute of the mask
  that is not optional and has no value in the entry makes the query fail with the
  missing-attribute error (\<open>LDAP_NO_SUCH_ATTRIBUTE\<close>, mapped to the Win32 domain); when
  every such attribute has a value the query succeeds, and for an attribute of the mask
  without a value (an optional one) the caller receives \<open>NULL\<close>. A look-up of a user or
  of a group whose entry lacks a required attribute fails with that error whenever it
  queries the directory, and it leaves the context, and so both caches, as they were.
\<close>

theorem required_and_optional_attributes:
  "(idmap_filter (config ctx) lookup FILTER_LEN = Inr flt
      \<and> ldap_search_stA w (base (config ctx)) flt = Inr (entry # others)
      \<and> a \<in> set (take len ldap_attrs) \<and> ATTR_ISSET attrs a \<and> \<not> ATTR_ISSET opt a
      \<and> ldap_get_valuesA entry (attributes (config ctx) a) = None
    \<longrightarrow> idmap_query_attrs w ctx lookup attrs opt vals len
          = (1, Inl (LdapMapErrorToWin32 LDAP_NO_SUCH_ATTRIBUTE)))
   \<and> (idmap_filter (config ctx) lookup FILTER_LEN = Inr flt
      \<and> ldap_search_stA w (base (config ctx)) flt = Inr (entry # others)
      \<and> (\<forall>a\<in>set (take len ldap_attrs). ATTR_ISSET attrs a \<and> \<not> ATTR_ISSET opt a \<longrightarrow>
             ldap_get_valuesA entry (attributes (config ctx) a) \<noteq> None)
    \<longrightarrow> idmap_query_attrs w ctx lookup attrs opt vals len
          = (1, Inr (\<lambda>a. if a \<in> set (take len ldap_attrs) \<and> ATTR_ISSET attrs a
                         then ldap_get_valuesA entry (attributes (config ctx) a) else vals a)))
   \<and> (\<not> FEATURE_IDMAPPER_CYGWIN b
      \<and> idmap_filter (config ctx) ulookup FILTER_LEN = Inr uflt
      \<and> ldap_search_stA w (base (config ctx)) uflt = Inr (uentry # uothers)
      \<and> (ua = ATTR_USER_NAME \<or> ua = ATTR_UID \<or> ua = ATTR_GID)
      \<and> ldap_get_valuesA uentry (attributes (config ctx) ua) = None
    \<longrightarrow> (queries (idmap_lookup_user b w (Some ctx) ulookup) = 1 \<longrightarrow>
           result (idmap_lookup_user b w (Some ctx) ulookup)
             = Inl (LdapMapErrorToWin32 LDAP_NO_SUCH_ATTRIBUTE))
        \<and> context_out (idmap_lookup_user b w (Some ctx) ulookup) = Some ctx)
   \<and> (\<not> FEATURE_IDMAPPER_CYGWIN b
      \<and> idmap_filter (config ctx) glookup FILTER_LEN = Inr gflt
      \<and> ldap_search_stA w (base (config ctx)) gflt = Inr (gentry # gothers)
      \<and> (ga = ATTR_GROUP_NAME \<or> ga = ATTR_GID)
      \<and> ldap_get_valuesA gentry (attributes (config ctx) ga) = None
    \<longrightarrow> (queries (idmap_lookup_group b w (Some ctx) glookup) = 1 \<longrightarrow>
           result (idmap_lookup_group b w (Some ctx) glookup)
             = Inl (LdapMapErrorToWin32 LDAP_NO_SUCH_ATTRIBUTE))
        \<and> context_out (idmap_lookup_group b w (Some ctx) glookup) = Some ctx)"
proof (intro conjI impI)
  assume h: "idmap_filter (config ctx) lookup FILTER_LEN = Inr flt
      \<and> ldap_search_stA w (base (config ctx)) flt = Inr (entry # others)
      \<and> a \<in> set (take len ldap_attrs) \<and> ATTR_ISSET attrs a \<and> \<not> ATTR_ISSET opt a
      \<and> ldap_get_valuesA entry (attributes (config ctx) a) = None"
  then show "idmap_query_attrs w ctx lookup attrs opt vals len
          = (1, Inl (LdapMapErrorToWin32 LDAP_NO_SUCH_ATTRIBUTE))"
    by (simp add: idmap_query_attrs_found [of ctx lookup flt w entry others]
        fetch_attributes_missing [of a])
next
  assume h: "idmap_filter (config ctx) lookup FILTER_LEN = Inr flt
      \<and> ldap_search_stA w (base (config ctx)) flt = Inr (entry # others)
      \<and> (\<forall>a\<in>set (take len ldap_attrs). ATTR_ISSET attrs a \<and> \<not> ATTR_ISSET opt a \<longrightarrow>
             ldap_get_valuesA entry (attributes (config ctx) a) \<noteq> None)"
  then show "idmap_query_attrs w ctx lookup attrs opt vals len
          = (1, Inr (\<lambda>a. if a \<in> set (take len ldap_attrs) \<and> ATTR_ISSET attrs a
                         then ldap_get_valuesA entry (attributes (config ctx) a) else vals a))"
    using fetch_attributes_present [of "take len ldap_attrs" attrs opt entry "config ctx" vals]
    by (simp add: idmap_query_attrs_found [of ctx lookup flt w entry others])
next
  assume h: "\<not> FEATURE_IDMAPPER_CYGWIN b
      \<and> idmap_filter (config ctx) ulookup FILTER_LEN = Inr uflt
      \<and> ldap_search_stA w (base (config ctx)) uflt = Inr (uentry # uothers)
      \<and> (ua = ATTR_USER_NAME \<or> ua = ATTR_UID \<or> ua = ATTR_GID)
      \<and> ldap_get_valuesA uentry (attributes (config ctx) ua) = None"
  have q: "\<And>vals. idmap_query_attrs w ctx ulookup
      (ATTR_FLAG ATTR_USER_NAME OR ATTR_FLAG ATTR_PRINCIPAL OR ATTR_FLAG ATTR_UID OR ATTR_FLAG ATTR_GID)
      (ATTR_FLAG ATTR_PRINCIPAL) vals NUM_ATTRIBUTES
        = (1, Inl (LdapMapErrorToWin32 LDAP_NO_SUCH_ATTRIBUTE))"
  proof -
    fix vals
    have mem: "ua \<in> set (take NUM_ATTRIBUTES ldap_attrs)"
      using h by (auto simp add: NUM_ATTRIBUTES_def ldap_attrs_def)
    have req: "ATTR_ISSET (ATTR_FLAG ATTR_USER_NAME OR ATTR_FLAG ATTR_PRINCIPAL
        OR ATTR_FLAG ATTR_UID OR ATTR_FLAG ATTR_GID) ua"
      "\<not> ATTR_ISSET (ATTR_FLAG ATTR_PRINCIPAL) ua"
      using h by (auto simp add: ATTR_ISSET_user)
    have f: "idmap_filter (config ctx) ulookup FILTER_LEN = Inr uflt"
      and sr: "ldap_search_stA w (base (config ctx)) uflt = Inr (uentry # uothers)"
      and nv: "ldap_get_valuesA uentry (attributes (config ctx) ua) = None"
      using h by auto
    show "idmap_query_attrs w ctx ulookup
      (ATTR_FLAG ATTR_USER_NAME OR ATTR_FLAG ATTR_PRINCIPAL OR ATTR_FLAG ATTR_UID OR ATTR_FLAG ATTR_GID)
      (ATTR_FLAG ATTR_PRINCIPAL) vals NUM_ATTRIBUTES
        = (1, Inl (LdapMapErrorToWin32 LDAP_NO_SUCH_ATTRIBUTE))"
      unfolding idmap_query_attrs_found [OF f sr]
      by (simp add: fetch_attributes_missing [OF mem req nv])
  qed
  have bk: "idmap_lookup_user_backend b w ctx ulookup = (1, Inl (LdapMapErrorToWin32 LDAP_NO_SUCH_ATTRIBUTE))"
    using h by (simp add: idmap_lookup_user_backend_def idmap_lookup_user_ldap_def q)
  show "queries (idmap_lookup_user b w (Some ctx) ulookup) = 1 \<Longrightarrow>
           result (idmap_lookup_user b w (Some ctx) ulookup)
             = Inl (LdapMapErrorToWin32 LDAP_NO_SUCH_ATTRIBUTE)"
    using bk by (auto simp add: idmap_lookup_user_def Let_def split: sum.splits if_splits)
  show "context_out (idmap_lookup_user b w (Some ctx) ulookup) = Some ctx"
    using bk by (auto simp add: idmap_lookup_user_def Let_def split: sum.splits if_splits)
next
  assume h: "\<not> FEATURE_IDMAPPER_CYGWIN b
      \<and> idmap_filter (config ctx) glookup FILTER_LEN = Inr gflt
      \<and> ldap_search_stA w (base (config ctx)) gflt = Inr (gentry # gothers)
      \<and> (ga = ATTR_GROUP_NAME \<or> ga = ATTR_GID)
      \<and> ldap_get_valuesA gentry (attributes (config ctx) ga) = None"
  have q: "\<And>vals. idmap_query_attrs w ctx glookup
      (ATTR_FLAG ATTR_GROUP_NAME OR ATTR_FLAG ATTR_GID) 0 vals NUM_ATTRIBUTES
        = (1, Inl (LdapMapErrorToWin32 LDAP_NO_SUCH_ATTRIBUTE))"
  proof -
    fix vals
    have mem: "ga \<in> set (take NUM_ATTRIBUTES ldap_attrs)"
      using h by (auto simp add: NUM_ATTRIBUTES_def ldap_attrs_def)
    have req: "ATTR_ISSET (ATTR_FLAG ATTR_GROUP_NAME OR ATTR_FLAG ATTR_GID) ga"
      "\<not> ATTR_ISSET 0 ga"
      using h by (auto simp add: ATTR_ISSET_user)
    have f: "idmap_filter (config ctx) glookup FILTER_LEN = Inr gflt"
      and sr: "ldap_search_stA w (base (config ctx)) gflt = Inr (gentry # gothers)"
      and nv: "ldap_get_valuesA gentry (attributes (config ctx) ga) = None"
      using h by auto
    show "idmap_query_attrs w ctx glookup
      (ATTR_FLAG ATTR_GROUP_NAME OR ATTR_FLAG ATTR_GID) 0 vals NUM_ATTRIBUTES
        = (1, Inl (LdapMapErrorToWin32 LDAP_NO_SUCH_ATTRIBUTE))"
      unfolding idmap_query_attrs_found [OF f sr]
      by (simp add: fetch_attributes_missing [OF mem req nv])
  qed
  have bk: "idmap_lookup_group_backend b w ctx glookup = (1, Inl (LdapMapErrorToWin32 LDAP_NO_SUCH_ATTRIBUTE))"
    using h by (simp add: idmap_lookup_group_backend_def idmap_lookup_group_ldap_def q)
  show "queries (idmap_lookup_group b w (Some ctx) glookup) = 1 \<Longrightarrow>
           result (idmap_lookup_group b w (Some ctx) glookup)
             = Inl (LdapMapErrorToWin32 LDAP_NO_SUCH_ATTRIBUTE)"
    using bk by (auto simp add: idmap_lookup_group_def Let_def split: sum.splits if_splits)
  show "context_out (idmap_lookup_group b w (Some ctx) glookup) = Some ctx"
    using bk by (auto simp add: idmap_lookup_group_def Let_def split: sum.splits if_splits)
qed


theorem required_and_optional_attributes_witness:
  "idmap_query_attrs example_world example_context (username_lookup ''bob'')
       (ATTR_FLAG ATTR_USER_NAME OR ATTR_FLAG ATTR_PRINCIPAL OR ATTR_FLAG ATTR_UID OR ATTR_FLAG ATTR_GID)
       (ATTR_FLAG ATTR_PRINCIPAL) (\<lambda>a. None) 5
     = (1, Inl (LdapMapErrorToWin32 LDAP_NO_SUCH_ATTRIBUTE))
   \<and> idmap_query_attrs example_world example_context (username_lookup ''alice'')
       (ATTR_FLAG ATTR_USER_NAME OR ATTR_FLAG ATTR_PRINCIPAL OR ATTR_FLAG ATTR_UID OR ATTR_FLAG ATTR_GID)
       (ATTR_FLAG ATTR_PRINCIPAL) (\<lambda>a. None) 5
     = (1, Inr (\<lambda>a. if a = ATTR_USER_NAME then Some [''alice''] else if a = ATTR_UID then Some [''1000'']
                 else if a = ATTR_GID then Some [''513''] else None))
   \<and> idmap_lookup_user example_build example_world (Some example_context) (username_lookup ''bob'')
     = \<lparr>result = Inl (LdapMapErrorToWin32 LDAP_NO_SUCH_ATTRIBUTE), queries = 1,
        context_out = Some example_context\<rparr>
   \<and> idmap_lookup_group example_build example_world (Some example_context) (group_lookup ''wheel'')
     = \<lparr>result = Inl (LdapMapErrorToWin32 LDAP_NO_SUCH_ATTRIBUTE), queries = 1,
        context_out = Some example_context\<rparr>"
proof -
  let ?M = "ATTR_FLAG ATTR_USER_NAME OR ATTR_FLAG ATTR_PRINCIPAL OR ATTR_FLAG ATTR_UID OR ATTR_FLAG ATTR_GID"
  have fb: "idmap_filter (config example_context) (username_lookup ''bob'') FILTER_LEN
      = Inr ''(&(objectClass=user)(cn=bob))''"
    by (simp add: example_fields idmap_filter_default)
  have fa: "idmap_filter (config example_context) (username_lookup ''alice'') FILTER_LEN
      = Inr ''(&(objectClass=user)(cn=alice))''"
    by (simp add: example_fields idmap_filter_default)
  have fw: "idmap_filter (config example_context) (group_lookup ''wheel'') FILTER_LEN
      = Inr ''(&(objectClass=group)(cn=wheel))''"
    unfolding idmap_filter_eq
    by (simp add: example_fields filter_grammar_def group_lookup_def default_config_fields
        FILTER_LEN_def)
  have sb: "ldap_search_stA example_world (base (config example_context))
      ''(&(objectClass=user)(cn=bob))'' = Inr (bob_entry # [])"
    by (simp add: example_fields example_directory_def)
  have sa: "ldap_search_stA example_world (base (config example_context))
      ''(&(objectClass=user)(cn=alice))'' = Inr (alice_entry # [])"
    by (simp add: example_fields example_directory_def)
  have sw: "ldap_search_stA example_world (base (config example_context))
      ''(&(objectClass=group)(cn=wheel))'' = Inr (wheel_entry # [])"
    by (simp add: example_fields example_directory_def)
  have nb: "ldap_get_valuesA bob_entry (attributes (config example_context) ATTR_UID) = None"
    by (simp add: example_fields default_config_fields ldap_get_valuesA_def bob_entry_def)
  have nw: "ldap_get_valuesA wheel_entry (attributes (config example_context) ATTR_GID) = None"
    by (simp add: example_fields default_config_fields ldap_get_valuesA_def wheel_entry_def)
  have pa: "\<forall>a\<in>set (take 5 ldap_attrs). ATTR_ISSET ?M a \<and> \<not> ATTR_ISSET (ATTR_FLAG ATTR_PRINCIPAL) a
      \<longrightarrow> ldap_get_valuesA alice_entry (attributes (config example_context) a) \<noteq> None"
    by (simp add: ldap_attrs_def ATTR_ISSET_user example_fields default_config_fields
        ldap_get_valuesA_def alice_entry_def)
  have va: "(\<lambda>a. if a \<in> set (take 5 ldap_attrs) \<and> ATTR_ISSET ?M a
                     then ldap_get_valuesA alice_entry (attributes (config example_context) a)
                     else None)
      = (\<lambda>a. if a = ATTR_USER_NAME then Some [''alice''] else if a = ATTR_UID then Some [''1000'']
                 else if a = ATTR_GID then Some [''513''] else None)"
    by (rule ext, case_tac a)
      (simp_all add: ldap_attrs_def ATTR_ISSET_user example_fields default_config_fields
        ldap_get_valuesA_def alice_entry_def)
  have qu: "queries (idmap_lookup_user example_build example_world (Some example_context)
      (username_lookup ''bob'')) = 1"
    by (simp add: lookup_user_queries example_fields cache_lookup_empty
        idmap_lookup_user_backend_def ldap_bob_by_name)
  have qg: "queries (idmap_lookup_group example_build example_world (Some example_context)
      (group_lookup ''wheel'')) = 1"
    by (simp add: lookup_group_queries example_fields cache_lookup_empty
        idmap_lookup_group_backend_def ldap_wheel_by_name)
  note t = required_and_optional_attributes [where ctx = example_context and w = example_world
      and b = example_build and len = 5 and vals = "\<lambda>a. None" and attrs = ?M
      and opt = "ATTR_FLAG ATTR_PRINCIPAL"
      and ulookup = "username_lookup ''bob''" and uflt = "''(&(objectClass=user)(cn=bob))''"
      and uentry = bob_entry and uothers = "[]" and ua = ATTR_UID
      and glookup = "group_lookup ''wheel''" and gflt = "''(&(objectClass=group)(cn=wheel))''"
      and gentry = wheel_entry and gothers = "[]" and ga = ATTR_GID]
  have c1: "idmap_query_attrs example_world example_context (username_lookup ''bob'') ?M
       (ATTR_FLAG ATTR_PRINCIPAL) (\<lambda>a. None) 5
     = (1, Inl (LdapMapErrorToWin32 LDAP_NO_SUCH_ATTRIBUTE))"
    using t [where lookup = "username_lookup ''bob''" and flt = "''(&(objectClass=user)(cn=bob))''"
        and entry = bob_entry and others = "[]" and a = ATTR_UID] fb sb nb
    by (simp add: ldap_attrs_def ATTR_ISSET_user)
  have c2: "idmap_query_attrs example_world example_context (username_lookup ''alice'') ?M
       (ATTR_FLAG ATTR_PRINCIPAL) (\<lambda>a. None) 5
     = (1, Inr (\<lambda>a. if a = ATTR_USER_NAME then Some [''alice''] else if a = ATTR_UID then Some [''1000'']
                 else if a = ATTR_GID then Some [''513''] else None))"
    using t [where lookup = "username_lookup ''alice''" and flt = "''(&(objectClass=user)(cn=alice))''"
        and entry = alice_entry and others = "[]" and a = ATTR_UID] fa sa pa va
    by simp
  have c3: "idmap_lookup_user example_build example_world (Some example_context) (username_lookup ''bob'')
     = \<lparr>result = Inl (LdapMapErrorToWin32 LDAP_NO_SUCH_ATTRIBUTE), queries = 1,
        context_out = Some example_context\<rparr>"
    using t [where lookup = "username_lookup ''bob''" and flt = "''(&(objectClass=user)(cn=bob))''"
        and entry = bob_entry and others = "[]" and a = ATTR_UID] fb sb nb qu
    by (cases "idmap_lookup_user example_build example_world (Some example_context) (username_lookup ''bob'')")
       (simp add: example_fields)
  have c4: "idmap_lookup_group example_build example_world (Some example_context) (group_lookup ''wheel'')
     = \<lparr>result = Inl (LdapMapErrorToWin32 LDAP_NO_SUCH_ATTRIBUTE), queries = 1,
        context_out = Some example_context\<rparr>"
    using t [where lookup = "username_lookup ''bob''" and flt = "''(&(objectClass=user)(cn=bob))''"
        and entry = bob_entry and others = "[]" and a = ATTR_UID] fw sw nw qg
    by (cases "idmap_lookup_group example_build example_world (Some example_context) (group_lookup ''wheel'')")
       (simp add: example_fields)
  show ?thesis using c1 c2 c3 c4 by simp
qed

subsection \<open>Claims about the cache\<close>

text \<open>
  C9. A look-up that is not answered from the cache and whose backend yields an entry
  returns success with that entry, whether or not \<open>calloc\<close> succeeds. When the key
  matches no cached entry and the allocation fails, \<open>cache_insert\<close> returns the error of
  \<open>GetLastError()\<close> and leaves the cache alone; the look-up drops that status.
\<close>

theorem caching_is_best_effort:
  "(idmap_lookup_user_backend b w ctx ulookup = (n, Inr user)
      \<and> (\<forall>e. cache_lookup user_cache_ops (users ctx) ulookup = Inr e \<longrightarrow>
             sint (cache_ttl (config ctx)) \<le> now_check w - last_updated e)
    \<longrightarrow> result (idmap_lookup_user b w (Some ctx) ulookup) = Inr user
        \<and> (\<not> calloc_ok w \<and> cache_lookup user_cache_ops (users ctx) ulookup = Inl ERROR_NOT_FOUND
            \<longrightarrow> cache_insert user_cache_ops (calloc_ok w) (last_error w) (users ctx) ulookup user
                  = (last_error w, users ctx)
                \<and> context_out (idmap_lookup_user b w (Some ctx) ulookup) = Some ctx))
   \<and> (idmap_lookup_group_backend b w ctx glookup = (m, Inr grp)
      \<and> (\<forall>e. cache_lookup group_cache_ops (groups ctx) glookup = Inr e \<longrightarrow>
             sint (cache_ttl (config ctx)) \<le> now_check w - last_updated' e)
    \<longrightarrow> result (idmap_lookup_group b w (Some ctx) glookup) = Inr grp
        \<and> (\<not> calloc_ok w \<and> cache_lookup group_cache_ops (groups ctx) glookup = Inl ERROR_NOT_FOUND
            \<longrightarrow> cache_insert group_cache_ops (calloc_ok w) (last_error w) (groups ctx) glookup grp
                  = (last_error w, groups ctx)
                \<and> context_out (idmap_lookup_group b w (Some ctx) glookup) = Some ctx))"
proof (intro conjI impI)
  assume h: "idmap_lookup_user_backend b w ctx ulookup = (n, Inr user)
      \<and> (\<forall>e. cache_lookup user_cache_ops (users ctx) ulookup = Inr e \<longrightarrow>
             sint (cache_ttl (config ctx)) \<le> now_check w - last_updated e)"
  show r: "result (idmap_lookup_user b w (Some ctx) ulookup) = Inr user"
  proof (cases "cache_lookup user_cache_ops (users ctx) ulookup")
    case (Inl st)
    then show ?thesis using h by (simp add: lookup_user_miss)
  next
    case (Inr e)
    then have "\<not> now_check w - last_updated e < sint (cache_ttl (config ctx))"
      using h by auto
    then show ?thesis using h Inr by (simp add: lookup_user_stale)
  qed
  assume f: "\<not> calloc_ok w \<and> cache_lookup user_cache_ops (users ctx) ulookup = Inl ERROR_NOT_FOUND"
  show i: "cache_insert user_cache_ops (calloc_ok w) (last_error w) (users ctx) ulookup user
                  = (last_error w, users ctx)"
    using f by (simp add: cache_insert_def cache_lookup_def user_cache_ops_def
        user_cache_alloc_def split: option.splits)
  show "context_out (idmap_lookup_user b w (Some ctx) ulookup) = Some ctx"
    using f h i by (cases ctx) (simp add: lookup_user_miss)
next
  assume h: "idmap_lookup_group_backend b w ctx glookup = (m, Inr grp)
      \<and> (\<forall>e. cache_lookup group_cache_ops (groups ctx) glookup = Inr e \<longrightarrow>
             sint (cache_ttl (config ctx)) \<le> now_check w - last_updated' e)"
  show r: "result (idmap_lookup_group b w (Some ctx) glookup) = Inr grp"
  proof (cases "cache_lookup group_cache_ops (groups ctx) glookup")
    case (Inl st)
    then show ?thesis using h by (simp add: lookup_group_miss)
  next
    case (Inr e)
    then have "\<not> now_check w - last_updated' e < sint (cache_ttl (config ctx))"
      using h by auto
    then show ?thesis using h Inr by (simp add: lookup_group_stale)
  qed
  assume f: "\<not> calloc_ok w \<and> cache_lookup group_cache_ops (groups ctx) glookup = Inl ERROR_NOT_FOUND"
  show i: "cache_insert group_cache_ops (calloc_ok w) (last_error w) (groups ctx) glookup grp
                  = (last_error w, groups ctx)"
    using f by (simp add: cache_insert_def cache_lookup_def group_cache_ops_def
        group_cache_alloc_def split: option.splits)
  show "context_out (idmap_lookup_group b w (Some ctx) glookup) = Some ctx"
    using f h i by (cases ctx) (simp add: lookup_group_miss)
qed

theorem caching_is_best_effort_witness:
  "idmap_lookup_user example_build (example_world\<lparr>calloc_ok := False\<rparr>) (Some example_context)
       (username_lookup ''alice'')
     = \<lparr>result = Inr alice, queries = 1, context_out = Some example_context\<rparr>
   \<and> cache_insert user_cache_ops False (Some (LAST_ERROR 8)) [] (username_lookup ''alice'') alice
     = (Some (LAST_ERROR 8), [])
   \<and> idmap_lookup_group example_build (example_world\<lparr>calloc_ok := False\<rparr>) (Some example_context)
       (group_lookup ''staff'')
     = \<lparr>result = Inr staff, queries = 1, context_out = Some example_context\<rparr>
   \<and> cache_insert group_cache_ops False (Some (LAST_ERROR 8)) [] (group_lookup ''staff'') staff
     = (Some (LAST_ERROR 8), [])"
  using caching_is_best_effort [where b = example_build and w = "example_world\<lparr>calloc_ok := False\<rparr>"
      and ctx = example_context and ulookup = "username_lookup ''alice''" and n = 1
      and user = alice and glookup = "group_lookup ''staff''" and m = 1 and grp = staff]
  by (simp add: idmap_lookup_user_backend_def idmap_lookup_group_backend_def example_fields
      ldap_alice_by_name ldap_staff_by_name alice_def staff_def cache_lookup_empty
      lookup_user_miss lookup_group_miss default_config_fields cache_insert_def
      user_cache_ops_def user_cache_alloc_def group_cache_ops_def group_cache_alloc_def)

subsection \<open>The NULL context\<close>

text \<open>
  C10. \<open>nfs41_idmap_name_to_ids\<close> with a \<open>NULL\<close> context returns
  \<open>ERROR_FILE_NOT_FOUND\<close> with no look-up in a cache or a backend and nothing written
  to its output locations. The other five operations do not test the context: they
  read through the \<open>NULL\<close> pointer, which is no status they return but an access
  violation.
\<close>

theorem null_context_checked_by_name_to_ids_only:
  "nfs41_idmap_name_to_ids b w None uname
     = \<lparr>result = Inl ERROR_FILE_NOT_FOUND, queries = 0, context_out = None\<rparr>
   \<and> result (nfs41_idmap_name_to_uid b w None uname) = Inl ACCESS_VIOLATION
   \<and> result (nfs41_idmap_uid_to_name b w None u len) = Inl ACCESS_VIOLATION
   \<and> result (nfs41_idmap_principal_to_ids b w None princ) = Inl ACCESS_VIOLATION
   \<and> result (nfs41_idmap_group_to_gid b w None gname) = Inl ACCESS_VIOLATION
   \<and> result (nfs41_idmap_gid_to_group b w None g len) = Inl ACCESS_VIOLATION"
  by (simp add: nfs41_idmap_name_to_ids_def nfs41_idmap_name_to_uid_def
      nfs41_idmap_uid_to_name_def nfs41_idmap_principal_to_ids_def nfs41_idmap_group_to_gid_def
      nfs41_idmap_gid_to_group_def idmap_lookup_user_def idmap_lookup_group_def)

theorem null_context_checked_by_name_to_ids_only_witness:
  "nfs41_idmap_name_to_ids example_build example_world None ''alice''
     = \<lparr>result = Inl ERROR_FILE_NOT_FOUND, queries = 0, context_out = None\<rparr>
   \<and> result (nfs41_idmap_name_to_uid example_build example_world None ''alice'')
       = Inl ACCESS_VIOLATION"
  using null_context_checked_by_name_to_ids_only [of example_build example_world "''alice''" 0 0 "[]" "[]" 0]
  by simp

subsection \<open>The local account database\<close>

lemma snprintf_principal:
  "snprintf VAL_LEN ''%s@%s'' [ARG_STR p, ARG_STR d] = take 256 (p @ ''@'' @ d)"
  by (simp add: snprintf_def VAL_LEN_def)

lemma cygwin_principal_never_matches:
  assumes "length princ < VAL_LEN - 1"
  shows "idmap_lookup_user_cygwin w ctx (principal_lookup princ) = (1, Inl ERROR_NOT_FOUND)"
proof -
  have "length (take 256 (princ @ ''@'' @ localdomain_name (config ctx))) \<noteq> length princ"
    using assms by (simp add: VAL_LEN_def)
  then have "take 256 (princ @ ''@'' @ localdomain_name (config ctx)) \<noteq> princ"
    by metis
  then have ne: "snprintf VAL_LEN ''%s@%s'' [ARG_STR princ, ARG_STR (localdomain_name (config ctx))]
      \<noteq> princ"
    by (simp only: snprintf_principal not_False_eq_True)
  have fits: "length princ < VAL_LEN" using assms by simp
  show ?thesis
    using ne fits
    by (simp add: idmap_lookup_user_cygwin_def principal_lookup_def
        strcmp_eq strcpy_s_def Let_def split: option.splits)
qed

text \<open>
  C2. With the local account database, the look-up of a principal shorter than 256
  characters never succeeds: the principal is re-synthesized from the whole principal
  that was asked for (\<open>lookup->value\<close>), not from the stripped account name, so the
  comparison with the principal compares \<open>principal@domain\<close> with \<open>principal\<close>. For the
  account \<open>alice\<close> of the local domain \<open>example.com\<close>, the principal
  \<open>alice@example.com\<close> is \<open>name @ domain\<close> of the account found, and the operation
  returns \<open>ERROR_NOT_FOUND\<close>.
\<close>

theorem local_principal_lookup_fails:
  "(length princ < VAL_LEN - 1 \<longrightarrow>
      idmap_lookup_user_cygwin w ctx (principal_lookup princ) = (1, Inl ERROR_NOT_FOUND))
   \<and> cygwin_getent_passwd example_world ''alice'' = Some (''alice'', 1000, 513)
   \<and> ''alice'' @ ''@'' @ localdomain_name (config example_context) = ''alice@example.com''
   \<and> nfs41_idmap_principal_to_ids example_build_cygwin example_world (Some example_context)
        ''alice@example.com''
      = \<lparr>result = Inl ERROR_NOT_FOUND, queries = 1, context_out = Some example_context\<rparr>"
proof (intro conjI impI)
  show "length princ < VAL_LEN - 1 \<Longrightarrow>
      idmap_lookup_user_cygwin w ctx (principal_lookup princ) = (1, Inl ERROR_NOT_FOUND)"
    by (rule cygwin_principal_never_matches)
  show "cygwin_getent_passwd example_world ''alice'' = Some (''alice'', 1000, 513)"
    by (simp add: example_fields example_passwd_def)
  show "''alice'' @ ''@'' @ localdomain_name (config example_context) = ''alice@example.com''"
    by (simp add: example_fields default_config_fields zero_config_def)
  have "idmap_lookup_user_cygwin example_world example_context (principal_lookup ''alice@example.com'')
      = (1, Inl ERROR_NOT_FOUND)"
    by (rule cygwin_principal_never_matches) (simp add: VAL_LEN_def)
  then show "nfs41_idmap_principal_to_ids example_build_cygwin example_world (Some example_context)
        ''alice@example.com''
      = \<lparr>result = Inl ERROR_NOT_FOUND, queries = 1, context_out = Some example_context\<rparr>"
    by (simp add: nfs41_idmap_principal_to_ids_def lookup_user_miss example_fields
        cache_lookup_empty idmap_lookup_user_backend_def)
qed

theorem local_principal_lookup_fails_witness:
  "idmap_lookup_user_cygwin example_world example_context (principal_lookup ''alice@example.com'')
     = (1, Inl ERROR_NOT_FOUND)
   \<and> idmap_lookup_user_cygwin example_world example_context (principal_lookup ''alice'')
     = (1, Inl ERROR_NOT_FOUND)"
  using local_principal_lookup_fails [of "''alice@example.com''" example_world example_context]
    local_principal_lookup_fails [of "''alice''" example_world example_context]
  by (simp add: VAL_LEN_def)

subsection \<open>The time to live of a cached entry\<close>

lemma facade_user_outcomes:
  "queries (nfs41_idmap_name_to_uid b w c n) = queries (idmap_lookup_user b w c (username_lookup n))"
  "context_out (nfs41_idmap_name_to_uid b w c n)
     = context_out (idmap_lookup_user b w c (username_lookup n))"
  "queries (nfs41_idmap_name_to_ids b w (Some ctx) n)
     = queries (idmap_lookup_user b w (Some ctx) (username_lookup n))"
  "context_out (nfs41_idmap_name_to_ids b w (Some ctx) n)
     = context_out (idmap_lookup_user b w (Some ctx) (username_lookup n))"
  "queries (nfs41_idmap_uid_to_name b w c u len) = queries (idmap_lookup_user b w c (uid_lookup u))"
  "context_out (nfs41_idmap_uid_to_name b w c u len)
     = context_out (idmap_lookup_user b w c (uid_lookup u))"
  "queries (nfs41_idmap_principal_to_ids b w c p)
     = queries (idmap_lookup_user b w c (principal_lookup p))"
  "context_out (nfs41_idmap_principal_to_ids b w c p)
     = context_out (idmap_lookup_user b w c (principal_lookup p))"
  by (simp_all add: nfs41_idmap_name_to_uid_def nfs41_idmap_name_to_ids_def
      nfs41_idmap_uid_to_name_def nfs41_idmap_principal_to_ids_def Let_def
      split: sum.splits prod.splits bool.splits)

lemma facade_group_outcomes:
  "queries (nfs41_idmap_group_to_gid b w c n) = queries (idmap_lookup_group b w c (group_lookup n))"
  "context_out (nfs41_idmap_group_to_gid b w c n)
     = context_out (idmap_lookup_group b w c (group_lookup n))"
  "queries (nfs41_idmap_gid_to_group b w c g len) = queries (idmap_lookup_group b w c (gid_lookup g))"
  "context_out (nfs41_idmap_gid_to_group b w c g len)
     = context_out (idmap_lookup_group b w c (gid_lookup g))"
  by (simp_all add: nfs41_idmap_group_to_gid_def nfs41_idmap_gid_to_group_def Let_def
      split: sum.splits prod.splits bool.splits)

lemma facade_results:
  "result (idmap_lookup_user b w c (username_lookup n)) = Inr e \<Longrightarrow>
     result (nfs41_idmap_name_to_uid b w c n) = Inr (uid e)"
  "result (idmap_lookup_user b w (Some ctx) (username_lookup n)) = Inr e \<Longrightarrow>
     result (nfs41_idmap_name_to_ids b w (Some ctx) n) = Inr (uid e, gid e)"
  "result (idmap_lookup_user b w c (uid_lookup u)) = Inr e \<Longrightarrow> length (username e) < len \<Longrightarrow>
     result (nfs41_idmap_uid_to_name b w c u len) = Inr (username e)"
  "result (idmap_lookup_user b w c (principal_lookup p)) = Inr e \<Longrightarrow>
     result (nfs41_idmap_principal_to_ids b w c p) = Inr (uid e, gid e)"
  "result (idmap_lookup_group b w c (group_lookup n)) = Inr eg \<Longrightarrow>
     result (nfs41_idmap_group_to_gid b w c n) = Inr (gid' eg)"
  "result (idmap_lookup_group b w c (gid_lookup g)) = Inr eg \<Longrightarrow> length (name eg) < len \<Longrightarrow>
     result (nfs41_idmap_gid_to_group b w c g len) = Inr (name eg)"
  by (simp_all add: nfs41_idmap_name_to_uid_def nfs41_idmap_name_to_ids_def
      nfs41_idmap_uid_to_name_def nfs41_idmap_principal_to_ids_def
      nfs41_idmap_group_to_gid_def nfs41_idmap_gid_to_group_def Let_def StringCchCopyA_def)

lemma lookup_attrs:
  "attr (username_lookup n) = ATTR_USER_NAME" "attr (uid_lookup u) = ATTR_UID"
  "attr (principal_lookup p) = ATTR_PRINCIPAL" "attr (group_lookup n) = ATTR_GROUP_NAME"
  "attr (gid_lookup g) = ATTR_GID"
  by (simp_all add: username_lookup_def uid_lookup_def principal_lookup_def group_lookup_def
      gid_lookup_def)

lemma lookup_values:
  "PTR2STR (lookup_value (username_lookup n)) = n"
  "PTR2STR (lookup_value (principal_lookup p)) = p"
  "PTR2STR (lookup_value (group_lookup n)) = n"
  by (simp_all add: username_lookup_def principal_lookup_def group_lookup_def)

lemma user_ttl_rules:
  assumes a: "attr L = ATTR_USER_NAME \<or> attr L = ATTR_PRINCIPAL \<or> attr L = ATTR_UID"
  shows "cache_ttl (config ctx) = 0 \<Longrightarrow> \<forall>e\<in>set (users ctx). last_updated e \<le> now_check w \<Longrightarrow>
           (FEATURE_IDMAPPER_CYGWIN b \<Longrightarrow> attr L = ATTR_PRINCIPAL \<Longrightarrow>
              length (PTR2STR (lookup_value L)) < VAL_LEN) \<Longrightarrow>
           queries (idmap_lookup_user b w (Some ctx) L)
             = (if FEATURE_IDMAPPER_CYGWIN b \<or> length (filter_grammar (config ctx) L) < FILTER_LEN
                then 1 else 0)
           \<and> context_out (idmap_lookup_user b w (Some ctx) L) = Some ctx"
    and "cache_lookup user_cache_ops (users ctx) L = Inr e \<Longrightarrow>
           now_check w - last_updated e < sint (cache_ttl (config ctx)) \<Longrightarrow>
           queries (idmap_lookup_user b w (Some ctx) L) = 0
           \<and> result (idmap_lookup_user b w (Some ctx) L) = Inr e
           \<and> context_out (idmap_lookup_user b w (Some ctx) L) = Some ctx"
    and "cache_lookup user_cache_ops (users ctx) L = Inl ERROR_NOT_FOUND
           \<or> cache_lookup user_cache_ops (users ctx) L = Inr e
              \<and> sint (cache_ttl (config ctx)) \<le> now_check w - last_updated e \<Longrightarrow>
           (FEATURE_IDMAPPER_CYGWIN b \<Longrightarrow> attr L = ATTR_PRINCIPAL \<Longrightarrow>
              length (PTR2STR (lookup_value L)) < VAL_LEN) \<Longrightarrow>
           queries (idmap_lookup_user b w (Some ctx) L)
             = (if FEATURE_IDMAPPER_CYGWIN b \<or> length (filter_grammar (config ctx) L) < FILTER_LEN
                then 1 else 0)"
proof -
  have n: "fst (idmap_lookup_user_backend b w ctx L)
      = (if FEATURE_IDMAPPER_CYGWIN b \<or> length (filter_grammar (config ctx) L) < FILTER_LEN
         then 1 else 0)"
    if "FEATURE_IDMAPPER_CYGWIN b \<Longrightarrow> attr L = ATTR_PRINCIPAL \<Longrightarrow>
              length (PTR2STR (lookup_value L)) < VAL_LEN"
    using user_backend_queries [OF a, of b w ctx] that by auto
  show "cache_ttl (config ctx) = 0 \<Longrightarrow> \<forall>e\<in>set (users ctx). last_updated e \<le> now_check w \<Longrightarrow>
           (FEATURE_IDMAPPER_CYGWIN b \<Longrightarrow> attr L = ATTR_PRINCIPAL \<Longrightarrow>
              length (PTR2STR (lookup_value L)) < VAL_LEN) \<Longrightarrow>
           queries (idmap_lookup_user b w (Some ctx) L)
             = (if FEATURE_IDMAPPER_CYGWIN b \<or> length (filter_grammar (config ctx) L) < FILTER_LEN
                then 1 else 0)
           \<and> context_out (idmap_lookup_user b w (Some ctx) L) = Some ctx"
    by (simp add: lookup_user_ttl0 n)
  show "cache_lookup user_cache_ops (users ctx) L = Inr e \<Longrightarrow>
           now_check w - last_updated e < sint (cache_ttl (config ctx)) \<Longrightarrow>
           queries (idmap_lookup_user b w (Some ctx) L) = 0
           \<and> result (idmap_lookup_user b w (Some ctx) L) = Inr e
           \<and> context_out (idmap_lookup_user b w (Some ctx) L) = Some ctx"
    by (simp add: lookup_user_fresh)
  show "queries (idmap_lookup_user b w (Some ctx) L)
             = (if FEATURE_IDMAPPER_CYGWIN b \<or> length (filter_grammar (config ctx) L) < FILTER_LEN
                then 1 else 0)"
    if "cache_lookup user_cache_ops (users ctx) L = Inl ERROR_NOT_FOUND
           \<or> cache_lookup user_cache_ops (users ctx) L = Inr e
              \<and> sint (cache_ttl (config ctx)) \<le> now_check w - last_updated e"
      and "FEATURE_IDMAPPER_CYGWIN b \<Longrightarrow> attr L = ATTR_PRINCIPAL \<Longrightarrow>
              length (PTR2STR (lookup_value L)) < VAL_LEN"
    using that(1) n [OF that(2)] by (auto simp add: lookup_user_queries)
qed

lemma group_ttl_rules:
  assumes a: "attr L = ATTR_GROUP_NAME \<or> attr L = ATTR_GID"
  shows "cache_ttl (config ctx) = 0 \<Longrightarrow> \<forall>e\<in>set (groups ctx). last_updated' e \<le> now_check w \<Longrightarrow>
           queries (idmap_lookup_group b w (Some ctx) L)
             = (if FEATURE_IDMAPPER_CYGWIN b \<or> length (filter_grammar (config ctx) L) < FILTER_LEN
                then 1 else 0)
           \<and> context_out (idmap_lookup_group b w (Some ctx) L) = Some ctx"
    and "cache_lookup group_cache_ops (groups ctx) L = Inr e \<Longrightarrow>
           now_check w - last_updated' e < sint (cache_ttl (config ctx)) \<Longrightarrow>
           queries (idmap_lookup_group b w (Some ctx) L) = 0
           \<and> result (idmap_lookup_group b w (Some ctx) L) = Inr e
           \<and> context_out (idmap_lookup_group b w (Some ctx) L) = Some ctx"
    and "cache_lookup group_cache_ops (groups ctx) L = Inl ERROR_NOT_FOUND
           \<or> cache_lookup group_cache_ops (groups ctx) L = Inr e
              \<and> sint (cache_ttl (config ctx)) \<le> now_check w - last_updated' e \<Longrightarrow>
           queries (idmap_lookup_group b w (Some ctx) L)
             = (if FEATURE_IDMAPPER_CYGWIN b \<or> length (filter_grammar (config ctx) L) < FILTER_LEN
                then 1 else 0)"
proof -
  have n: "fst (idmap_lookup_group_backend b w ctx L)
      = (if FEATURE_IDMAPPER_CYGWIN b \<or> length (filter_grammar (config ctx) L) < FILTER_LEN
         then 1 else 0)"
    using group_backend_queries [OF a, of b w ctx] by auto
  show "cache_ttl (config ctx) = 0 \<Longrightarrow> \<forall>e\<in>set (groups ctx). last_updated' e \<le> now_check w \<Longrightarrow>
           queries (idmap_lookup_group b w (Some ctx) L)
             = (if FEATURE_IDMAPPER_CYGWIN b \<or> length (filter_grammar (config ctx) L) < FILTER_LEN
                then 1 else 0)
           \<and> context_out (idmap_lookup_group b w (Some ctx) L) = Some ctx"
    by (simp add: lookup_group_ttl0 n)
  show "cache_lookup group_cache_ops (groups ctx) L = Inr e \<Longrightarrow>
           now_check w - last_updated' e < sint (cache_ttl (config ctx)) \<Longrightarrow>
           queries (idmap_lookup_group b w (Some ctx) L) = 0
           \<and> result (idmap_lookup_group b w (Some ctx) L) = Inr e
           \<and> context_out (idmap_lookup_group b w (Some ctx) L) = Some ctx"
    by (simp add: lookup_group_fresh)
  show "cache_lookup group_cache_ops (groups ctx) L = Inl ERROR_NOT_FOUND
           \<or> cache_lookup group_cache_ops (groups ctx) L = Inr e
              \<and> sint (cache_ttl (config ctx)) \<le> now_check w - last_updated' e \<Longrightarrow>
           queries (idmap_lookup_group b w (Some ctx) L)
             = (if FEATURE_IDMAPPER_CYGWIN b \<or> length (filter_grammar (config ctx) L) < FILTER_LEN
                then 1 else 0)"
    by (auto simp add: lookup_group_queries n)
qed

lemma long_name_filter:
  "\<not> length (filter_grammar (config example_context) (username_lookup (replicate 1000 CHR ''a'')))
       < FILTER_LEN"
  by (simp add: filter_grammar_def username_lookup_def example_fields default_config_fields
      FILTER_LEN_def)

text \<open>
  With the local account database, a principal of \<open>VAL_LEN\<close> characters or more does not
  fit \<open>search_name\<close>: \<open>strcpy_s\<close> faults before \<open>cygwin_getent_passwd\<close> is called, and
  the look-up reaches no query.
\<close>

lemma long_principal_reaches_no_query:
  assumes "FEATURE_IDMAPPER_CYGWIN b" and "\<not> length princ < VAL_LEN"
  shows "idmap_lookup_user_backend b w ctx (principal_lookup princ) = (0, Inl CRT_INVALID_PARAMETER)"
  using assms
  by (simp add: idmap_lookup_user_backend_def idmap_lookup_user_cygwin_def lookup_attrs
      lookup_values strcpy_s_def)

text \<open>
  C1. For each of the six operations, where a backend query is a call of
  \<open>ldap_search_stA\<close>, or of \<open>cygwin_getent_passwd\<close> or \<open>cygwin_getent_group\<close> with the
  local account database, that the operation reaches: with a \<open>cache_ttl\<close> of 0 (and no
  cached entry stamped later than now, as in the empty cache a mapper starts with) the
  operation issues exactly one backend query, or none when it uses the directory and
  the search filter of its key does not fit \<open>FILTER_LEN\<close> characters with its
  terminator, and it leaves the context, and so both caches, as it was; with a
  \<open>cache_ttl\<close> \<open>T > 0\<close>, an operation whose key finds a cached entry with
  \<open>now - last_updated < T\<close> issues no backend query and returns the cached value (the
  two operations that return a name: when it fits the caller's buffer), and an operation
  whose key finds no entry, or an entry of age \<open>\<ge> T\<close>, issues exactly one, or none
  when it uses the directory and the filter of its key does not fit. With the local
  account database the number of queries for a principal is stated for principals
  shorter than \<open>VAL_LEN\<close> characters.
\<close>

theorem ttl_semantics:
  "(cache_ttl (config ctx) = 0 \<and> (\<forall>e\<in>set (users ctx). last_updated e \<le> now_check w)
      \<longrightarrow> queries (nfs41_idmap_name_to_uid b w (Some ctx) uname)
            = (if FEATURE_IDMAPPER_CYGWIN b
                \<or> length (filter_grammar (config ctx) (username_lookup uname)) < FILTER_LEN
              then 1 else 0)
          \<and> context_out (nfs41_idmap_name_to_uid b w (Some ctx) uname) = Some ctx)
   \<and> (0 < sint (cache_ttl (config ctx))
        \<and> cache_lookup user_cache_ops (users ctx) (username_lookup uname) = Inr eu
        \<and> now_check w - last_updated eu < sint (cache_ttl (config ctx))
      \<longrightarrow> queries (nfs41_idmap_name_to_uid b w (Some ctx) uname) = 0
          \<and> result (nfs41_idmap_name_to_uid b w (Some ctx) uname) = Inr (uid eu)
          \<and> context_out (nfs41_idmap_name_to_uid b w (Some ctx) uname) = Some ctx)
   \<and> (0 < sint (cache_ttl (config ctx))
        \<and> (cache_lookup user_cache_ops (users ctx) (username_lookup uname) = Inl ERROR_NOT_FOUND
             \<or> cache_lookup user_cache_ops (users ctx) (username_lookup uname) = Inr eu
                \<and> sint (cache_ttl (config ctx)) \<le> now_check w - last_updated eu)
      \<longrightarrow> queries (nfs41_idmap_name_to_uid b w (Some ctx) uname)
            = (if FEATURE_IDMAPPER_CYGWIN b
                \<or> length (filter_grammar (config ctx) (username_lookup uname)) < FILTER_LEN
              then 1 else 0))
   \<and> (cache_ttl (config ctx) = 0 \<and> (\<forall>e\<in>set (users ctx). last_updated e \<le> now_check w)
      \<longrightarrow> queries (nfs41_idmap_name_to_ids b w (Some ctx) uname)
            = (if FEATURE_IDMAPPER_CYGWIN b
                \<or> length (filter_grammar (config ctx) (username_lookup uname)) < FILTER_LEN
              then 1 else 0)
          \<and> context_out (nfs41_idmap_name_to_ids b w (Some ctx) uname) = Some ctx)
   \<and> (0 < sint (cache_ttl (config ctx))
        \<and> cache_lookup user_cache_ops (users ctx) (username_lookup uname) = Inr eu
        \<and> now_check w - last_updated eu < sint (cache_ttl (config ctx))
      \<longrightarrow> queries (nfs41_idmap_name_to_ids b w (Some ctx) uname) = 0
          \<and> result (nfs41_idmap_name_to_ids b w (Some ctx) uname) = Inr (uid eu, gid eu)
          \<and> context_out (nfs41_idmap_name_to_ids b w (Some ctx) uname) = Some ctx)
   \<and> (0 < sint (cache_ttl (config ctx))
        \<and> (cache_lookup user_cache_ops (users ctx) (username_lookup uname) = Inl ERROR_NOT_FOUND
             \<or> cache_lookup user_cache_ops (users ctx) (username_lookup uname) = Inr eu
                \<and> sint (cache_ttl (config ctx)) \<le> now_check w - last_updated eu)
      \<longrightarrow> queries (nfs41_idmap_name_to_ids b w (Some ctx) uname)
            = (if FEATURE_IDMAPPER_CYGWIN b
                \<or> length (filter_grammar (config ctx) (username_lookup uname)) < FILTER_LEN
              then 1 else 0))
   \<and> (cache_ttl (config ctx) = 0 \<and> (\<forall>e\<in>set (users ctx). last_updated e \<le> now_check w)
      \<longrightarrow> queries (nfs41_idmap_uid_to_name b w (Some ctx) u len)
            = (if FEATURE_IDMAPPER_CYGWIN b
                \<or> length (filter_grammar (config ctx) (uid_lookup u)) < FILTER_LEN
              then 1 else 0)
          \<and> context_out (nfs41_idmap_uid_to_name b w (Some ctx) u len) = Some ctx)
   \<and> (0 < sint (cache_ttl (config ctx))
        \<and> cache_lookup user_cache_ops (users ctx) (uid_lookup u) = Inr eu
        \<and> now_check w - last_updated eu < sint (cache_ttl (config ctx))
        \<and> length (username eu) < len
      \<longrightarrow> queries (nfs41_idmap_uid_to_name b w (Some ctx) u len) = 0
          \<and> result (nfs41_idmap_uid_to_name b w (Some ctx) u len) = Inr (username eu)
          \<and> context_out (nfs41_idmap_uid_to_name b w (Some ctx) u len) = Some ctx)
   \<and> (0 < sint (cache_ttl (config ctx))
        \<and> (cache_lookup user_cache_ops (users ctx) (uid_lookup u) = Inl ERROR_NOT_FOUND
             \<or> cache_lookup user_cache_ops (users ctx) (uid_lookup u) = Inr eu
                \<and> sint (cache_ttl (config ctx)) \<le> now_check w - last_updated eu)
      \<longrightarrow> queries (nfs41_idmap_uid_to_name b w (Some ctx) u len)
            = (if FEATURE_IDMAPPER_CYGWIN b
                \<or> length (filter_grammar (config ctx) (uid_lookup u)) < FILTER_LEN
              then 1 else 0))
   \<and> (cache_ttl (config ctx) = 0 \<and> (\<forall>e\<in>set (users ctx). last_updated e \<le> now_check w)
        \<and> (FEATURE_IDMAPPER_CYGWIN b \<longrightarrow> length princ < VAL_LEN)
      \<longrightarrow> queries (nfs41_idmap_principal_to_ids b w (Some ctx) princ)
            = (if FEATURE_IDMAPPER_CYGWIN b
                \<or> length (filter_grammar (config ctx) (principal_lookup princ)) < FILTER_LEN
              then 1 else 0)
          \<and> context_out (nfs41_idmap_principal_to_ids b w (Some ctx) princ) = Some ctx)
   \<and> (0 < sint (cache_ttl (config ctx))
        \<and> cache_lookup user_cache_ops (users ctx) (principal_lookup princ) = Inr eu
        \<and> now_check w - last_updated eu < sint (cache_ttl (config ctx))
      \<longrightarrow> queries (nfs41_idmap_principal_to_ids b w (Some ctx) princ) = 0
          \<and> result (nfs41_idmap_principal_to_ids b w (Some ctx) princ) = Inr (uid eu, gid eu)
          \<and> context_out (nfs41_idmap_principal_to_ids b w (Some ctx) princ) = Some ctx)
   \<and> (0 < sint (cache_ttl (config ctx))
        \<and> (cache_lookup user_cache_ops (users ctx) (principal_lookup princ) = Inl ERROR_NOT_FOUND
             \<or> cache_lookup user_cache_ops (users ctx) (principal_lookup princ) = Inr eu
                \<and> sint (cache_ttl (config ctx)) \<le> now_check w - last_updated eu)
        \<and> (FEATURE_IDMAPPER_CYGWIN b \<longrightarrow> length princ < VAL_LEN)
      \<longrightarrow> queries (nfs41_idmap_principal_to_ids b w (Some ctx) princ)
            = (if FEATURE_IDMAPPER_CYGWIN b
                \<or> length (filter_grammar (config ctx) (principal_lookup princ)) < FILTER_LEN
              then 1 else 0))
   \<and> (cache_ttl (config ctx) = 0 \<and> (\<forall>e\<in>set (groups ctx). last_updated' e \<le> now_check w)
      \<longrightarrow> queries (nfs41_idmap_group_to_gid b w (Some ctx) gname)
            = (if FEATURE_IDMAPPER_CYGWIN b
                \<or> length (filter_grammar (config ctx) (group_lookup gname)) < FILTER_LEN
              then 1 else 0)
          \<and> context_out (nfs41_idmap_group_to_gid b w (Some ctx) gname) = Some ctx)
   \<and> (0 < sint (cache_ttl (config ctx))
        \<and> cache_lookup group_cache_ops (groups ctx) (group_lookup gname) = Inr eg
        \<and> now_check w - last_updated' eg < sint (cache_ttl (config ctx))
      \<longrightarrow> queries (nfs41_idmap_group_to_gid b w (Some ctx) gname) = 0
          \<and> result (nfs41_idmap_group_to_gid b w (Some ctx) gname) = Inr (gid' eg)
          \<and> context_out (nfs41_idmap_group_to_gid b w (Some ctx) gname) = Some ctx)
   \<and> (0 < sint (cache_ttl (config ctx))
        \<and> (cache_lookup group_cache_ops (groups ctx) (group_lookup gname) = Inl ERROR_NOT_FOUND
             \<or> cache_lookup group_cache_ops (groups ctx) (group_lookup gname) = Inr eg
                \<and> sint (cache_ttl (config ctx)) \<le> now_check w - last_updated' eg)
      \<longrightarrow> queries (nfs41_idmap_group_to_gid b w (Some ctx) gname)
            = (if FEATURE_IDMAPPER_CYGWIN b
                \<or> length (filter_grammar (config ctx) (group_lookup gname)) < FILTER_LEN
              then 1 else 0))
   \<and> (cache_ttl (config ctx) = 0 \<and> (\<forall>e\<in>set (groups ctx). last_updated' e \<le> now_check w)
      \<longrightarrow> queries (nfs41_idmap_gid_to_group b w (Some ctx) g len)
            = (if FEATURE_IDMAPPER_CYGWIN b
                \<or> length (filter_grammar (config ctx) (gid_lookup g)) < FILTER_LEN
              then 1 else 0)
          \<and> context_out (nfs41_idmap_gid_to_group b w (Some ctx) g len) = Some ctx)
   \<and> (0 < sint (cache_ttl (config ctx))
        \<and> cache_lookup group_cache_ops (groups ctx) (gid_lookup g) = Inr eg
        \<and> now_check w - last_updated' eg < sint (cache_ttl (config ctx))
        \<and> length (name eg) < len
      \<longrightarrow> queries (nfs41_idmap_gid_to_group b w (Some ctx) g len) = 0
          \<and> result (nfs41_idmap_gid_to_group b w (Some ctx) g len) = Inr (name eg)
          \<and> context_out (nfs41_idmap_gid_to_group b w (Some ctx) g len) = Some ctx)
   \<and> (0 < sint (cache_ttl (config ctx))
        \<and> (cache_lookup group_cache_ops (groups ctx) (gid_lookup g) = Inl ERROR_NOT_FOUND
             \<or> cache_lookup group_cache_ops (groups ctx) (gid_lookup g) = Inr eg
                \<and> sint (cache_ttl (config ctx)) \<le> now_check w - last_updated' eg)
      \<longrightarrow> queries (nfs41_idmap_gid_to_group b w (Some ctx) g len)
            = (if FEATURE_IDMAPPER_CYGWIN b
                \<or> length (filter_grammar (config ctx) (gid_lookup g)) < FILTER_LEN
              then 1 else 0))"
  unfolding facade_user_outcomes facade_group_outcomes
  apply (intro conjI impI)
  subgoal by (rule user_ttl_rules(1) [THEN conjunct1]) (auto simp add: lookup_attrs lookup_values)
  subgoal by (rule user_ttl_rules(1) [THEN conjunct2]) (auto simp add: lookup_attrs lookup_values)
  subgoal by (rule user_ttl_rules(2) [THEN conjunct1]) (auto simp add: lookup_attrs lookup_values)
  subgoal by (rule facade_results(1), rule user_ttl_rules(2) [THEN conjunct2, THEN conjunct1]) (auto simp add: lookup_attrs lookup_values)
  subgoal by (rule user_ttl_rules(2) [THEN conjunct2, THEN conjunct2]) (auto simp add: lookup_attrs lookup_values)
  subgoal by (rule user_ttl_rules(3)) (auto simp add: lookup_attrs lookup_values)
  subgoal by (rule user_ttl_rules(1) [THEN conjunct1]) (auto simp add: lookup_attrs lookup_values)
  subgoal by (rule user_ttl_rules(1) [THEN conjunct2]) (auto simp add: lookup_attrs lookup_values)
  subgoal by (rule user_ttl_rules(2) [THEN conjunct1]) (auto simp add: lookup_attrs lookup_values)
  subgoal by (rule facade_results(2), rule user_ttl_rules(2) [THEN conjunct2, THEN conjunct1]) (auto simp add: lookup_attrs lookup_values)
  subgoal by (rule user_ttl_rules(2) [THEN conjunct2, THEN conjunct2]) (auto simp add: lookup_attrs lookup_values)
  subgoal by (rule user_ttl_rules(3)) (auto simp add: lookup_attrs lookup_values)
  subgoal by (rule user_ttl_rules(1) [THEN conjunct1]) (auto simp add: lookup_attrs lookup_values)
  subgoal by (rule user_ttl_rules(1) [THEN conjunct2]) (auto simp add: lookup_attrs lookup_values)
  subgoal by (rule user_ttl_rules(2) [THEN conjunct1]) (auto simp add: lookup_attrs lookup_values)
  subgoal by (rule facade_results(3), rule user_ttl_rules(2) [THEN conjunct2, THEN conjunct1]) (auto simp add: lookup_attrs lookup_values)
  subgoal by (rule user_ttl_rules(2) [THEN conjunct2, THEN conjunct2]) (auto simp add: lookup_attrs lookup_values)
  subgoal by (rule user_ttl_rules(3)) (auto simp add: lookup_attrs lookup_values)
  subgoal by (rule user_ttl_rules(1) [THEN conjunct1]) (auto simp add: lookup_attrs lookup_values)
  subgoal by (rule user_ttl_rules(1) [THEN conjunct2]) (auto simp add: lookup_attrs lookup_values)
  subgoal by (rule user_ttl_rules(2) [THEN conjunct1]) (auto simp add: lookup_attrs lookup_values)
  subgoal by (rule facade_results(4), rule user_ttl_rules(2) [THEN conjunct2, THEN conjunct1]) (auto simp add: lookup_attrs lookup_values)
  subgoal by (rule user_ttl_rules(2) [THEN conjunct2, THEN conjunct2]) (auto simp add: lookup_attrs lookup_values)
  subgoal by (rule user_ttl_rules(3)) (auto simp add: lookup_attrs lookup_values)
  subgoal by (rule group_ttl_rules(1) [THEN conjunct1]) (auto simp add: lookup_attrs lookup_values)
  subgoal by (rule group_ttl_rules(1) [THEN conjunct2]) (auto simp add: lookup_attrs lookup_values)
  subgoal by (rule group_ttl_rules(2) [THEN conjunct1]) (auto simp add: lookup_attrs lookup_values)
  subgoal by (rule facade_results(5), rule group_ttl_rules(2) [THEN conjunct2, THEN conjunct1]) (auto simp add: lookup_attrs lookup_values)
  subgoal by (rule group_ttl_rules(2) [THEN conjunct2, THEN conjunct2]) (auto simp add: lookup_attrs lookup_values)
  subgoal by (rule group_ttl_rules(3)) (auto simp add: lookup_attrs lookup_values)
  subgoal by (rule group_ttl_rules(1) [THEN conjunct1]) (auto simp add: lookup_attrs lookup_values)
  subgoal by (rule group_ttl_rules(1) [THEN conjunct2]) (auto simp add: lookup_attrs lookup_values)
  subgoal by (rule group_ttl_rules(2) [THEN conjunct1]) (auto simp add: lookup_attrs lookup_values)
  subgoal by (rule facade_results(6), rule group_ttl_rules(2) [THEN conjunct2, THEN conjunct1]) (auto simp add: lookup_attrs lookup_values)
  subgoal by (rule group_ttl_rules(2) [THEN conjunct2, THEN conjunct2]) (auto simp add: lookup_attrs lookup_values)
  subgoal by (rule group_ttl_rules(3)) (auto simp add: lookup_attrs lookup_values)
  done

lemma user_cache_copy_alice: "user_cache_copy alice = alice"
  by (simp add: user_cache_copy_def alice_def StringCchCopyA_def VAL_LEN_def)

lemma group_cache_copy_staff: "group_cache_copy staff = staff"
  by (simp add: group_cache_copy_def staff_def StringCchCopyA_def VAL_LEN_def)

lemma cache_lookup_alice:
  "cache_lookup user_cache_ops [alice] (username_lookup ''alice'') = Inr alice"
  "cache_lookup user_cache_ops [alice] (uid_lookup 1000) = Inr alice"
  by (simp_all add: cache_lookup_def user_cache_ops_def user_cache_copy_alice username_lookup_def
      uid_lookup_def username_cmp_def uid_cmp_def strcmp_eq UID_T2PTR_def PTR2UID_T_def,
      simp_all add: alice_def)

lemma cache_lookup_staff:
  "cache_lookup group_cache_ops [staff] (gid_lookup 513) = Inr staff"
  by (simp add: cache_lookup_def group_cache_ops_def group_cache_copy_staff
      gid_lookup_def gid_cmp_def GID_T2PTR_def PTR2GID_T_def, simp add: staff_def)

theorem ttl_semantics_witness:
  "queries (nfs41_idmap_name_to_uid example_build example_world
       (Some (example_context\<lparr>config := (default_config zero_config)\<lparr>cache_ttl := 0\<rparr>\<rparr>))
       ''alice'') = 1
   \<and> context_out (nfs41_idmap_name_to_uid example_build example_world
       (Some (example_context\<lparr>config := (default_config zero_config)\<lparr>cache_ttl := 0\<rparr>\<rparr>))
       ''alice'')
      = Some (example_context\<lparr>config := (default_config zero_config)\<lparr>cache_ttl := 0\<rparr>\<rparr>)
   \<and> nfs41_idmap_name_to_uid example_build (example_world\<lparr>now_check := 200\<rparr>)
       (Some (example_context\<lparr>users := [alice]\<rparr>)) ''alice''
      = \<lparr>result = Inr 1000, queries = 0,
         context_out = Some (example_context\<lparr>users := [alice]\<rparr>)\<rparr>
   \<and> queries (nfs41_idmap_name_to_uid example_build (example_world\<lparr>now_check := 7000\<rparr>)
       (Some (example_context\<lparr>users := [alice]\<rparr>)) ''alice'') = 1
   \<and> queries (nfs41_idmap_name_to_uid example_build example_world (Some example_context)
       ''alice'') = 1
   \<and> queries (nfs41_idmap_name_to_uid example_build example_world (Some example_context)
       (replicate 1000 CHR ''a'')) = 0
   \<and> queries (nfs41_idmap_principal_to_ids example_build_cygwin example_world
       (Some example_context) ''alice@example.com'') = 1
   \<and> nfs41_idmap_gid_to_group example_build (example_world\<lparr>now_check := 200\<rparr>)
       (Some (example_context\<lparr>groups := [staff]\<rparr>)) 513 64
      = \<lparr>result = Inr ''staff'', queries = 0,
         context_out = Some (example_context\<lparr>groups := [staff]\<rparr>)\<rparr>"
proof -
  let ?c0 = "example_context\<lparr>config := (default_config zero_config)\<lparr>cache_ttl := 0\<rparr>\<rparr>"
  let ?c1 = "example_context\<lparr>users := [alice]\<rparr>"
  let ?c2 = "example_context\<lparr>groups := [staff]\<rparr>"
  have f: "users ?c0 = []" "cache_ttl (config ?c0) = 0" "users ?c1 = [alice]"
    "cache_ttl (config ?c1) = 6000" "groups ?c2 = [staff]" "cache_ttl (config ?c2) = 6000"
    "cache_ttl (config example_context) = 6000"
    by (simp_all add: example_context_def default_config_fields)
  have s: "sint (6000 :: 32 word) = 6000" by simp
  have fl: "length (filter_grammar (config ?c0) (username_lookup ''alice'')) < FILTER_LEN"
    "length (filter_grammar (config ?c1) (username_lookup ''alice'')) < FILTER_LEN"
    "length (filter_grammar (config example_context) (username_lookup ''alice'')) < FILTER_LEN"
    by (simp_all add: filter_grammar_def username_lookup_def example_context_def
        default_config_fields FILTER_LEN_def)
  have a: "queries (nfs41_idmap_name_to_uid example_build example_world (Some ?c0) ''alice'') = 1
      \<and> context_out (nfs41_idmap_name_to_uid example_build example_world (Some ?c0) ''alice'')
        = Some ?c0"
    using ttl_semantics [where b = example_build and w = example_world and ctx = ?c0
        and uname = "''alice''", THEN conjunct1] fl(1)
    by (simp add: f)
  have b: "queries (nfs41_idmap_name_to_uid example_build (example_world\<lparr>now_check := 200\<rparr>)
       (Some ?c1) ''alice'') = 0
      \<and> result (nfs41_idmap_name_to_uid example_build (example_world\<lparr>now_check := 200\<rparr>)
       (Some ?c1) ''alice'') = Inr (uid alice)
      \<and> context_out (nfs41_idmap_name_to_uid example_build (example_world\<lparr>now_check := 200\<rparr>)
       (Some ?c1) ''alice'') = Some ?c1"
    using ttl_semantics [where b = example_build and w = "example_world\<lparr>now_check := 200\<rparr>"
        and ctx = ?c1 and uname = "''alice''" and eu = alice, THEN conjunct2, THEN conjunct1]
    by (simp add: f s cache_lookup_alice) (simp add: alice_def)
  have c: "queries (nfs41_idmap_name_to_uid example_build (example_world\<lparr>now_check := 7000\<rparr>)
       (Some ?c1) ''alice'') = 1"
    using ttl_semantics [where b = example_build and w = "example_world\<lparr>now_check := 7000\<rparr>"
        and ctx = ?c1 and uname = "''alice''" and eu = alice,
        THEN conjunct2, THEN conjunct2, THEN conjunct1] fl(2)
    by (simp add: f s cache_lookup_alice) (simp add: alice_def)
  have d: "queries (nfs41_idmap_name_to_uid example_build example_world (Some example_context)
       ''alice'') = 1"
    using ttl_semantics [where b = example_build and w = example_world
        and ctx = example_context and uname = "''alice''" and eu = alice,
        THEN conjunct2, THEN conjunct2, THEN conjunct1] fl(3)
    by (simp add: f s example_fields cache_lookup_empty default_config_fields)
  have d0: "queries (nfs41_idmap_name_to_uid example_build example_world (Some example_context)
       (replicate 1000 CHR ''a'')) = 0"
    using ttl_semantics [where b = example_build and w = example_world
        and ctx = example_context and uname = "replicate 1000 CHR ''a''" and eu = alice,
        THEN conjunct2, THEN conjunct2, THEN conjunct1] long_name_filter
    by (simp add: f s example_fields cache_lookup_empty default_config_fields)
  have p: "queries (nfs41_idmap_principal_to_ids example_build_cygwin example_world
       (Some example_context) ''alice@example.com'') = 1"
    using ttl_semantics [where b = example_build_cygwin and w = example_world
        and ctx = example_context and princ = "''alice@example.com''" and eu = alice,
        THEN conjunct2, THEN conjunct2, THEN conjunct2, THEN conjunct2, THEN conjunct2,
        THEN conjunct2, THEN conjunct2, THEN conjunct2, THEN conjunct2, THEN conjunct2,
        THEN conjunct2, THEN conjunct1]
    by (simp add: f s example_fields cache_lookup_empty default_config_fields VAL_LEN_def)
  have e: "queries (nfs41_idmap_gid_to_group example_build (example_world\<lparr>now_check := 200\<rparr>)
       (Some ?c2) 513 64) = 0
      \<and> result (nfs41_idmap_gid_to_group example_build (example_world\<lparr>now_check := 200\<rparr>)
       (Some ?c2) 513 64) = Inr (name staff)
      \<and> context_out (nfs41_idmap_gid_to_group example_build (example_world\<lparr>now_check := 200\<rparr>)
       (Some ?c2) 513 64) = Some ?c2"
    using ttl_semantics [where b = example_build and w = "example_world\<lparr>now_check := 200\<rparr>"
        and ctx = ?c2 and g = 513 and len = 64 and eg = staff,
        THEN conjunct2, THEN conjunct2, THEN conjunct2, THEN conjunct2, THEN conjunct2,
        THEN conjunct2, THEN conjunct2, THEN conjunct2, THEN conjunct2, THEN conjunct2,
        THEN conjunct2, THEN conjunct2, THEN conjunct2, THEN conjunct2, THEN conjunct2,
        THEN conjunct2, THEN conjunct1]
    by (simp add: f s cache_lookup_staff) (simp add: staff_def)
  have r1: "nfs41_idmap_name_to_uid example_build (example_world\<lparr>now_check := 200\<rparr>)
       (Some ?c1) ''alice''
      = \<lparr>result = Inr 1000, queries = 0, context_out = Some ?c1\<rparr>"
    using b
    by (cases "nfs41_idmap_name_to_uid example_build (example_world\<lparr>now_check := 200\<rparr>)
       (Some ?c1) ''alice''") (simp add: alice_def)
  have r2: "nfs41_idmap_gid_to_group example_build (example_world\<lparr>now_check := 200\<rparr>)
       (Some ?c2) 513 64
      = \<lparr>result = Inr ''staff'', queries = 0, context_out = Some ?c2\<rparr>"
    using e
    by (cases "nfs41_idmap_gid_to_group example_build (example_world\<lparr>now_check := 200\<rparr>)
       (Some ?c2) 513 64") (simp add: staff_def)
  show ?thesis using a r1 c d d0 p r2 by simp
qed

text \<open>
  A user name of 1000 characters, with the default configuration, the build that uses
  the directory and an empty cache: the filter does not fit, \<open>idmap_query_attrs\<close> leaves
  before \<open>ldap_search_stA\<close>, and the operation fails without a backend query, with a
  \<open>cache_ttl\<close> of 6000 as with a \<open>cache_ttl\<close> of 0.
\<close>

theorem long_name_sends_no_query:
  "cache_ttl (config example_context) = 6000
   \<and> cache_lookup user_cache_ops (users example_context)
        (username_lookup (replicate 1000 CHR ''a'')) = Inl ERROR_NOT_FOUND
   \<and> nfs41_idmap_name_to_uid example_build example_world (Some example_context)
        (replicate 1000 CHR ''a'')
      = \<lparr>result = Inl ERROR_BUFFER_OVERFLOW, queries = 0, context_out = Some example_context\<rparr>
   \<and> nfs41_idmap_name_to_uid example_build example_world
        (Some (example_context\<lparr>config := (default_config zero_config)\<lparr>cache_ttl := 0\<rparr>\<rparr>))
        (replicate 1000 CHR ''a'')
      = \<lparr>result = Inl ERROR_BUFFER_OVERFLOW, queries = 0,
         context_out = Some (example_context\<lparr>config := (default_config zero_config)\<lparr>cache_ttl := 0\<rparr>\<rparr>)\<rparr>"
proof -
  let ?c0 = "example_context\<lparr>config := (default_config zero_config)\<lparr>cache_ttl := 0\<rparr>\<rparr>"
  let ?n = "replicate 1000 CHR ''a''"
  have l0: "\<not> length (filter_grammar (config ?c0) (username_lookup ?n)) < FILTER_LEN"
    by (simp add: filter_grammar_def username_lookup_def example_context_def
        default_config_fields FILTER_LEN_def)
  have b1: "idmap_lookup_user_backend example_build example_world example_context
      (username_lookup ?n) = (0, Inl ERROR_BUFFER_OVERFLOW)"
    by (simp add: idmap_lookup_user_backend_def example_fields
        user_ldap_overflow [OF long_name_filter])
  have b0: "idmap_lookup_user_backend example_build example_world ?c0
      (username_lookup ?n) = (0, Inl ERROR_BUFFER_OVERFLOW)"
    by (simp add: idmap_lookup_user_backend_def example_fields user_ldap_overflow [OF l0])
  have u0: "users ?c0 = []" by (simp add: example_context_def)
  have t1: "nfs41_idmap_name_to_uid example_build example_world (Some example_context) ?n
      = \<lparr>result = Inl ERROR_BUFFER_OVERFLOW, queries = 0, context_out = Some example_context\<rparr>"
    by (simp add: nfs41_idmap_name_to_uid_def
        lookup_user_miss [where st = ERROR_NOT_FOUND] example_fields cache_lookup_empty b1)
  have t0: "nfs41_idmap_name_to_uid example_build example_world (Some ?c0) ?n
      = \<lparr>result = Inl ERROR_BUFFER_OVERFLOW, queries = 0, context_out = Some ?c0\<rparr>"
    by (simp add: nfs41_idmap_name_to_uid_def
        lookup_user_miss [where st = ERROR_NOT_FOUND] u0 cache_lookup_empty b0)
  show ?thesis
    using t1 t0 by (simp add: example_fields cache_lookup_empty default_config_fields)
qed

subsection \<open>From a name to a uid and back\<close>

lemma query_attrs_config_only:
  "idmap_query_attrs w (ctx\<lparr>users := us\<rparr>) L a opt v n = idmap_query_attrs w ctx L a opt v n"
  by (simp add: idmap_query_attrs_def split: sum.splits option.splits)

lemma backend_config_only:
  "idmap_lookup_user_backend b w (ctx\<lparr>users := us\<rparr>) L = idmap_lookup_user_backend b w ctx L"
  by (simp add: idmap_lookup_user_backend_def idmap_lookup_user_ldap_def
      query_attrs_config_only idmap_lookup_user_cygwin_def Let_def
      split: sum.splits option.splits prod.splits)

lemma StringCchCopyA_length:
  "0 < n \<Longrightarrow> length (snd (StringCchCopyA d n s)) < n"
  by (auto simp add: StringCchCopyA_def)

lemma StringCchCopyA_ok:
  "StringCchCopyA d n s = (False, t) \<Longrightarrow> t = s \<and> length s < n"
  by (auto simp add: StringCchCopyA_def split: if_splits)

lemma ldap_user_wf:
  "idmap_lookup_user_ldap w ctx L = (n, Inr r) \<Longrightarrow> length (username r) < VAL_LEN"
  unfolding idmap_lookup_user_ldap_def Let_def
  by (auto split: sum.splits prod.splits option.splits bool.splits dest: StringCchCopyA_ok)

lemma cygwin_user_wf:
  "idmap_lookup_user_cygwin w ctx L = (n, Inr r) \<Longrightarrow> length (username r) < VAL_LEN"
  unfolding idmap_lookup_user_cygwin_def Let_def
  using StringCchCopyA_length [of VAL_LEN "[]"]
  by (auto simp add: VAL_LEN_def split: sum.splits prod.splits option.splits if_splits)

lemma backend_user_wf:
  "idmap_lookup_user_backend b w ctx L = (n, Inr r) \<Longrightarrow> length (username r) < VAL_LEN"
  by (auto simp add: idmap_lookup_user_backend_def split: if_splits
      dest: ldap_user_wf cygwin_user_wf)

lemma user_cache_copy_wf:
  "length (username r) < VAL_LEN \<Longrightarrow>
     username (user_cache_copy r) = username r \<and> uid (user_cache_copy r) = uid r"
  by (simp add: user_cache_copy_def StringCchCopyA_def)

lemma cache_insert_set:
  "set (snd (cache_insert ops ok le cache L src)) \<subseteq> insert (entry_copy ops src) (set cache)"
  by (auto simp add: cache_insert_def split: option.splits dest: set_update_subset_insert [THEN subsetD])


lemma uid_cmp_iff: "(uid_cmp e (UID_T2PTR u) = 0) = (uid e = u)"
  by (auto simp add: uid_cmp_def UID_T2PTR_def PTR2UID_T_def signed_eq_0_iff)

lemma username_cmp_iff: "(username_cmp e (PTR_STR n) = 0) = (username e = n)"
  by (simp add: username_cmp_def strcmp_eq)

lemma cache_lookup_user_by_uid:
  assumes "cache_lookup user_cache_ops cache (uid_lookup u) = Inr e"
    and "\<forall>x\<in>set cache. length (username x) < VAL_LEN \<and> (uid x = u \<longrightarrow> username x = uname)"
  shows "username e = uname"
proof -
  from assms(1) obtain i where i: "list_search cache (UID_T2PTR u) uid_cmp = Some i"
    and e: "e = user_cache_copy (cache ! i)"
    by (auto simp add: cache_lookup_def uid_lookup_def user_cache_ops_def split: option.splits)
  from list_search_Some [OF i] have "i < length cache" "uid (cache ! i) = u"
    by (auto simp add: uid_cmp_iff)
  then have "length (username (cache ! i)) < VAL_LEN" "username (cache ! i) = uname"
    using assms(2) by (auto simp add: all_set_conv_all_nth)
  then show ?thesis using e by (simp add: user_cache_copy_wf)
qed

lemma cache_lookup_user_by_name:
  assumes "cache_lookup user_cache_ops cache (username_lookup uname) = Inr e"
    and "\<forall>x\<in>set cache. length (username x) < VAL_LEN \<and> (uid x = uid e \<longrightarrow> username x = uname)"
  shows "username e = uname"
proof -
  from assms(1) obtain i where i: "list_search cache (PTR_STR uname) username_cmp = Some i"
    and e: "e = user_cache_copy (cache ! i)"
    by (auto simp add: cache_lookup_def username_lookup_def user_cache_ops_def split: option.splits)
  from list_search_Some [OF i] have "i < length cache" "username (cache ! i) = uname"
    by (auto simp add: username_cmp_iff)
  then have "length (username (cache ! i)) < VAL_LEN" "username (cache ! i) = uname"
    using assms(2) by (auto simp add: all_set_conv_all_nth)
  then show ?thesis using e by (simp add: user_cache_copy_wf)
qed

lemma uid_to_name_from_coherent_cache:
  assumes cache: "\<forall>x\<in>set (users ctx). length (username x) < VAL_LEN \<and> (uid x = u \<longrightarrow> username x = uname)"
    and by_uid: "\<exists>n rec. idmap_lookup_user_backend b w ctx (uid_lookup u) = (n, Inr rec) \<and> username rec = uname"
    and fits: "length uname < len"
  shows "result (nfs41_idmap_uid_to_name b w (Some ctx) u len) = Inr uname"
proof -
  from by_uid obtain n rec where bk: "idmap_lookup_user_backend b w ctx (uid_lookup u) = (n, Inr rec)"
    and rn: "username rec = uname" by blast
  have "\<exists>e. result (idmap_lookup_user b w (Some ctx) (uid_lookup u)) = Inr e \<and> username e = uname"
  proof (cases "cache_lookup user_cache_ops (users ctx) (uid_lookup u)")
    case (Inl st)
    then show ?thesis using bk rn by (simp add: lookup_user_miss)
  next
    case (Inr e)
    have en: "username e = uname" by (rule cache_lookup_user_by_uid [OF Inr cache])
    show ?thesis
    proof (cases "now_check w - last_updated e < sint (cache_ttl (config ctx))")
      case True
      then show ?thesis using Inr en by (simp add: lookup_user_fresh)
    next
      case False
      then show ?thesis using Inr bk rn by (simp add: lookup_user_stale)
    qed
  qed
  then obtain e where "result (idmap_lookup_user b w (Some ctx) (uid_lookup u)) = Inr e"
    and "username e = uname" by blast
  then show ?thesis using fits facade_results(3) [of b w "Some ctx" u e len] by simp
qed

lemma name_to_uid_keeps_coherence:
  assumes first: "result (nfs41_idmap_name_to_uid b w (Some ctx) uname) = Inr u"
    and out: "context_out (nfs41_idmap_name_to_uid b w (Some ctx) uname) = Some ctx1"
    and by_name: "\<forall>n rec. idmap_lookup_user_backend b w ctx (username_lookup uname) = (n, Inr rec)
        \<longrightarrow> username rec = uname"
    and cache: "\<forall>x\<in>set (users ctx). length (username x) < VAL_LEN \<and> (uid x = u \<longrightarrow> username x = uname)"
  shows "(\<forall>x\<in>set (users ctx1). length (username x) < VAL_LEN \<and> (uid x = u \<longrightarrow> username x = uname))
         \<and> (\<exists>us. ctx1 = ctx\<lparr>users := us\<rparr>)"
proof -
  let ?L = "username_lookup uname"
  let ?r = "idmap_lookup_user b w (Some ctx) ?L"
  have out': "context_out ?r = Some ctx1" using out by (simp add: facade_user_outcomes)
  have same: "ctx\<lparr>users := users ctx\<rparr> = ctx" by simp
  have keep: "ctx1 = ctx \<Longrightarrow> ?thesis" using cache same by metis
  obtain n res where bk: "idmap_lookup_user_backend b w ctx ?L = (n, res)"
    by (cases "idmap_lookup_user_backend b w ctx ?L") auto
  have backend_case: ?thesis
    if r: "?r = (case idmap_lookup_user_backend b w ctx ?L of
        (n, Inl status) \<Rightarrow> \<lparr>result = Inl status, queries = n, context_out = Some ctx\<rparr>
      | (n, Inr user) \<Rightarrow>
          \<lparr>result = Inr user, queries = n,
           context_out = Some (if cache_ttl (config ctx) \<noteq> 0
             then ctx\<lparr>users := snd (cache_insert user_cache_ops (calloc_ok w) (last_error w)
                                      (users ctx) ?L user)\<rparr>
             else ctx)\<rparr>)"
  proof (cases res)
    case (Inl st)
    then show ?thesis using r bk out' keep by simp
  next
    case (Inr rec)
    have rn: "username rec = uname" using by_name bk Inr by blast
    have rl: "length (username rec) < VAL_LEN" using backend_user_wf bk Inr by blast
    show ?thesis
    proof (cases "cache_ttl (config ctx) \<noteq> 0")
      case False
      then show ?thesis using r bk Inr out' keep by simp
    next
      case True
      let ?us = "snd (cache_insert user_cache_ops (calloc_ok w) (last_error w) (users ctx) ?L rec)"
      have c1: "ctx1 = ctx\<lparr>users := ?us\<rparr>" using r bk Inr out' True by simp
      have "set ?us \<subseteq> insert (user_cache_copy rec) (set (users ctx))"
        using cache_insert_set [of user_cache_ops "calloc_ok w" "last_error w" "users ctx" ?L rec]
        by (simp add: user_cache_ops_def)
      moreover have "length (username (user_cache_copy rec)) < VAL_LEN
          \<and> username (user_cache_copy rec) = uname"
        using rn rl by (simp add: user_cache_copy_wf)
      ultimately have "\<forall>x\<in>set ?us. length (username x) < VAL_LEN \<and> (uid x = u \<longrightarrow> username x = uname)"
        using cache by auto
      then show ?thesis using c1 by auto
    qed
  qed
  show ?thesis
  proof (cases "cache_lookup user_cache_ops (users ctx) ?L")
    case (Inl st)
    then show ?thesis using backend_case by (simp add: lookup_user_miss)
  next
    case (Inr e)
    show ?thesis
    proof (cases "now_check w - last_updated e < sint (cache_ttl (config ctx))")
      case True
      then have "ctx1 = ctx" using Inr out' by (simp add: lookup_user_fresh)
      then show ?thesis by (rule keep)
    next
      case False
      then show ?thesis using Inr backend_case by (simp add: lookup_user_stale)
    qed
  qed
qed

lemma lookup_user_preserves_invariant:
  assumes inv: "\<forall>x\<in>set (users ctx). P x"
    and bk: "\<forall>n rec. idmap_lookup_user_backend b w ctx L = (n, Inr rec) \<longrightarrow> P (user_cache_copy rec)"
    and out: "context_out (idmap_lookup_user b w (Some ctx) L) = Some ctx1"
  shows "\<forall>x\<in>set (users ctx1). P x"
proof -
  have ins: "\<And>rec. P (user_cache_copy rec) \<Longrightarrow>
      \<forall>x\<in>set (snd (cache_insert user_cache_ops (calloc_ok w) (last_error w) (users ctx) L rec)). P x"
    using cache_insert_set [of user_cache_ops "calloc_ok w" "last_error w" "users ctx" L] inv
    by (auto simp add: user_cache_ops_def)
  show ?thesis
    using out inv bk ins
    by (auto simp add: idmap_lookup_user_def Let_def split: sum.splits prod.splits if_splits)
qed

lemma example_name_to_uid:
  "nfs41_idmap_name_to_uid example_build example_world (Some example_context) ''alice''
     = \<lparr>result = Inr 1000, queries = 1,
        context_out = Some (example_context\<lparr>users := [alice]\<rparr>)\<rparr>"
  by (simp add: nfs41_idmap_name_to_uid_def lookup_user_miss example_fields cache_lookup_empty
      idmap_lookup_user_backend_def ldap_alice_by_name default_config_fields cache_insert_def
      user_cache_ops_def user_cache_alloc_def user_cache_copy_def StringCchCopyA_def VAL_LEN_def
      alice_def)

text \<open>
  C8. Let \<open>name_to_uid\<close> succeed for a user name, and let the backend be consistent for
  it: the record it finds by that name carries the name, and the record it finds by the
  uid that was returned carries the same name and uid. Let the cache agree with the
  backend, as it does when nothing was changed since its entries were fetched: every
  cached entry with that uid carries that name (and, being an array of \<open>VAL_LEN\<close>
  characters, a name shorter than \<open>VAL_LEN\<close>). Then \<open>uid_to_name\<close>, on the context
  \<open>name_to_uid\<close> left behind and with a buffer the name fits, returns the original name,
  whenever the two calls happen. \<open>lookup_user_preserves_invariant\<close> shows that a
  look-up keeps such an agreement of the cache with the backend's records, which holds
  of the empty cache.
\<close>

theorem name_uid_name_round_trip:
  assumes first: "result (nfs41_idmap_name_to_uid b w1 (Some ctx) uname) = Inr u"
    and out: "context_out (nfs41_idmap_name_to_uid b w1 (Some ctx) uname) = Some ctx1"
    and by_name: "\<forall>n rec. idmap_lookup_user_backend b w1 ctx (username_lookup uname) = (n, Inr rec)
        \<longrightarrow> username rec = uname"
    and by_uid: "\<exists>n rec. idmap_lookup_user_backend b w2 ctx (uid_lookup u) = (n, Inr rec)
        \<and> username rec = uname \<and> uid rec = u"
    and cache: "\<forall>x\<in>set (users ctx). length (username x) < VAL_LEN \<and> (uid x = u \<longrightarrow> username x = uname)"
    and fits: "length uname < len"
  shows "result (nfs41_idmap_uid_to_name b w2 (Some ctx1) u len) = Inr uname"
proof -
  from name_to_uid_keeps_coherence [OF first out by_name cache]
  obtain us where c1: "ctx1 = ctx\<lparr>users := us\<rparr>"
    and coh: "\<forall>x\<in>set (users ctx1). length (username x) < VAL_LEN \<and> (uid x = u \<longrightarrow> username x = uname)"
    by blast
  have bu: "\<exists>n rec. idmap_lookup_user_backend b w2 ctx1 (uid_lookup u) = (n, Inr rec) \<and> username rec = uname"
    using by_uid c1 by (auto simp add: backend_config_only)
  show ?thesis by (rule uid_to_name_from_coherent_cache [OF coh bu fits])
qed


theorem name_uid_name_round_trip_witness:
  "result (nfs41_idmap_name_to_uid example_build example_world (Some example_context) ''alice'')
     = Inr 1000
   \<and> context_out (nfs41_idmap_name_to_uid example_build example_world (Some example_context)
        ''alice'') = Some (example_context\<lparr>users := [alice]\<rparr>)
   \<and> result (nfs41_idmap_uid_to_name example_build
        (example_world\<lparr>now_check := 7000, now_update := 7000\<rparr>)
        (Some (example_context\<lparr>users := [alice]\<rparr>)) 1000 64) = Inr ''alice''"
proof -
  let ?w2 = "example_world\<lparr>now_check := 7000, now_update := 7000\<rparr>"
  have h1: "result (nfs41_idmap_name_to_uid example_build example_world (Some example_context)
      ''alice'') = Inr 1000"
    by (simp add: example_name_to_uid)
  have h2: "context_out (nfs41_idmap_name_to_uid example_build example_world (Some example_context)
      ''alice'') = Some (example_context\<lparr>users := [alice]\<rparr>)"
    by (simp add: example_name_to_uid)
  have h3: "\<forall>n rec. idmap_lookup_user_backend example_build example_world example_context
        (username_lookup ''alice'') = (n, Inr rec) \<longrightarrow> username rec = ''alice''"
    by (auto simp add: idmap_lookup_user_backend_def example_fields ldap_alice_by_name)
  have h4: "\<exists>n rec. idmap_lookup_user_backend example_build ?w2 example_context
        (uid_lookup 1000) = (n, Inr rec) \<and> username rec = ''alice'' \<and> uid rec = 1000"
    by (simp add: idmap_lookup_user_backend_def example_fields ldap_alice_by_uid)
  have h5: "\<forall>x\<in>set (users example_context). length (username x) < VAL_LEN
      \<and> (uid x = 1000 \<longrightarrow> username x = ''alice'')"
    by (simp add: example_fields)
  have h6: "length ''alice'' < (64 :: nat)" by simp
  from name_uid_name_round_trip [OF h1 h2 h3 h4 h5 h6] h1 h2 show ?thesis by simp
qed

end
